theory Spec2Isabelle
  imports Complex_Main
begin

section \<open>NumPy arrays used by the notebooks\<close>

text \<open>
  A one-dimensional array is a list, a two-dimensional array a list of rows. Integer
  entries are \<open>int\<close>. Numbers that only pass through Keras (samples, weights, losses)
  are real numbers; the arithmetic the notebook does itself, in the interpolation cell,
  is floating-point arithmetic with its rounding (see below).
\<close>

type_synonym vec = "real list"
type_synonym mat = "real list list"

text \<open>\<^verbatim>\<open>np.zeros(n)\<close>, \<^verbatim>\<open>np.ones(n)\<close> and \<^verbatim>\<open>np.zeros((r, c))\<close>.\<close>

definition zeros :: "nat \<Rightarrow> vec" where
  "zeros n = replicate n 0"

definition ones :: "nat \<Rightarrow> vec" where
  "ones n = replicate n 1"

definition zeros2 :: "nat \<Rightarrow> nat \<Rightarrow> 'a::zero list list" where
  "zeros2 r c = replicate r (replicate c 0)"

text \<open>\<^verbatim>\<open>y[:n] = v\<close>: the first \<open>n\<close> entries (as many as there are) become \<open>v\<close>.\<close>

definition assign_prefix :: "nat \<Rightarrow> 'a \<Rightarrow> 'a list \<Rightarrow> 'a list" where
  "assign_prefix n v y = replicate (min n (length y)) v @ drop n y"

text \<open>\<^verbatim>\<open>np.concatenate([a, b])\<close> along the first axis.\<close>

definition concatenate :: "'a list \<Rightarrow> 'a list \<Rightarrow> 'a list" where
  "concatenate a b = a @ b"

text \<open>
  \<^verbatim>\<open>M[:, n] = col\<close>: entry \<open>n\<close> of every row is replaced by the matching entry of
  \<open>col\<close>. The notebooks only use it with one entry of \<open>col\<close> per row and \<open>n\<close> inside
  the row.
\<close>

definition set_col :: "'a list list \<Rightarrow> nat \<Rightarrow> 'a list \<Rightarrow> 'a list list" where
  "set_col M n col = map (\<lambda>(row, v). row[n := v]) (zip M col)"

section \<open>One-hot encoding of the classifier notebook\<close>

text \<open>
  \<^verbatim>\<open>
  train_set_labels_output = np.zeros((len(train_set_labels),10),dtype=np.int16)
  for n in range(10):
      train_set_labels_output[:,n] = train_set_labels==n
  \<close>
  The comparison gives a boolean array, stored into the integer column as 0 or 1.
\<close>

definition labels_eq :: "int list \<Rightarrow> int \<Rightarrow> int list" where
  "labels_eq labels n = map (\<lambda>l. if l = n then 1 else 0) labels"

definition one_hot_upto :: "nat \<Rightarrow> int list \<Rightarrow> int list list" where
  "one_hot_upto k labels =
     fold (\<lambda>n out. set_col out n (labels_eq labels (int n))) [0..<k]
       (zeros2 (length labels) 10)"

definition one_hot :: "int list \<Rightarrow> int list list" where
  "one_hot labels = one_hot_upto 10 labels"

section \<open>Floating-point numbers\<close>

text \<open>
  The interpolation cell computes in NumPy's \<open>float64\<close> and stores into a \<open>float32\<close>
  array. A floating-point value is modelled by the real number it denotes, or \<open>None\<close>
  when it is an infinity or a NaN; the two zeros are not told apart (they compare
  equal). A binary format has \<open>p\<close> significant bits and exponents from \<open>emin\<close> to
  \<open>emax\<close>.
\<close>

type_synonym fvalue = "real option"

definition pow2 :: "int \<Rightarrow> real" where
  "pow2 k = (if 0 \<le> k then 2 ^ nat k else 1 / 2 ^ nat (- k))"

text \<open>The nearest integer, ties to the even one.\<close>

definition round_half_even :: "real \<Rightarrow> int" where
  "round_half_even y =
     (let f = \<lfloor>y\<rfloor>
      in if y - of_int f < 1 / 2 then f
         else if 1 / 2 < y - of_int f then f + 1
         else if even f then f else f + 1)"

text \<open>
  Rounding a real result to a format (IEEE 754, round to nearest even): the result is
  the nearest multiple of the unit in the last place of \<open>x\<close>, which is
  \<open>2 ^ (e - p + 1)\<close> for \<open>2 ^ e \<le> |x| < 2 ^ (e + 1)\<close> and never below
  \<open>2 ^ (emin - p + 1)\<close> (gradual underflow); a result of magnitude \<open>2 ^ (emax + 1)\<close>
  or more overflows to an infinity.
\<close>

definition round_float :: "nat \<Rightarrow> int \<Rightarrow> int \<Rightarrow> real \<Rightarrow> fvalue" where
  "round_float p emin emax x =
     (if x = 0 then Some 0
      else
        let e = max \<lfloor>log 2 \<bar>x\<bar>\<rfloor> emin;
            u = pow2 (e - int p + 1);
            r = of_int (round_half_even (x / u)) * u
        in if \<bar>r\<bar> < pow2 (emax + 1) then Some r else None)"

definition float64 :: "real \<Rightarrow> fvalue" where
  "float64 x = round_float 53 (- 1022) 1023 x"

definition float32 :: "real \<Rightarrow> fvalue" where
  "float32 x = round_float 24 (- 126) 127 x"

text \<open>
  The \<open>float64\<close> operations \<open>*\<close>, \<open>+\<close>, \<open>-\<close> and \<open>/\<close>: the exact result, rounded. An
  operation on an infinity or a NaN gives an infinity or a NaN, and so does a division
  by zero.
\<close>

definition fmul :: "fvalue \<Rightarrow> fvalue \<Rightarrow> fvalue" where
  "fmul x y = (case (x, y) of (Some a, Some b) \<Rightarrow> float64 (a * b) | _ \<Rightarrow> None)"

definition fadd :: "fvalue \<Rightarrow> fvalue \<Rightarrow> fvalue" where
  "fadd x y = (case (x, y) of (Some a, Some b) \<Rightarrow> float64 (a + b) | _ \<Rightarrow> None)"

definition fsub :: "fvalue \<Rightarrow> fvalue \<Rightarrow> fvalue" where
  "fsub x y = (case (x, y) of (Some a, Some b) \<Rightarrow> float64 (a - b) | _ \<Rightarrow> None)"

definition fdiv :: "fvalue \<Rightarrow> fvalue \<Rightarrow> fvalue" where
  "fdiv x y =
     (case (x, y) of
        (Some a, Some b) \<Rightarrow> if b = 0 then None else float64 (a / b)
      | _ \<Rightarrow> None)"

text \<open>Storing a \<open>float64\<close> value into a \<open>float32\<close> array rounds it to \<open>float32\<close>.\<close>

definition cast32 :: "fvalue \<Rightarrow> fvalue" where
  "cast32 v = (case v of Some a \<Rightarrow> float32 a | None \<Rightarrow> None)"

section \<open>Interpolation in the latent space\<close>

text \<open>
  \<^verbatim>\<open>
  noise = np.zeros((10, latent_dim), dtype='float32')
  for ni in range(10):
    noise[ni, :] = float(ni)/10. * noise_a + (1 - float(ni)/10.) * noise_b
  \<close>
  \<open>noise_a\<close> and \<open>noise_b\<close> are \<open>float64\<close> arrays of shape \<open>[1, latent_dim]\<close> with
  finite entries (draws of \<^verbatim>\<open>np.random.normal\<close>); they are modelled by their single
  row. \<open>mix t\<close> is the right-hand side for the \<open>float64\<close> number
  \<open>t = float(ni)/10.\<close>, entry by entry.
\<close>

definition mix :: "fvalue \<Rightarrow> vec \<Rightarrow> vec \<Rightarrow> fvalue list" where
  "mix t a b =
     map (\<lambda>(x, y). fadd (fmul t (Some x)) (fmul (fsub (Some 1) t) (Some y))) (zip a b)"

definition interpolation_upto :: "nat \<Rightarrow> nat \<Rightarrow> vec \<Rightarrow> vec \<Rightarrow> fvalue list list" where
  "interpolation_upto k latent_dim noise_a noise_b =
     fold (\<lambda>ni noise.
             noise[ni := map cast32 (mix (fdiv (Some (real ni)) (Some 10)) noise_a noise_b)])
       [0..<k] (replicate 10 (replicate latent_dim (Some 0)))"

definition interpolation :: "nat \<Rightarrow> vec \<Rightarrow> vec \<Rightarrow> fvalue list list" where
  "interpolation latent_dim noise_a noise_b = interpolation_upto 10 latent_dim noise_a noise_b"

section \<open>Keras layers and models\<close>

text \<open>
  Every trainable scalar of a network lives at an address of one weight store. A dense
  layer of \<open>n_in\<close> inputs and \<open>units\<close> outputs whose weights start at address
  \<open>base\<close> keeps kernel entry \<open>(i, j)\<close> at \<open>base + i * units + j\<close> and bias \<open>j\<close> at
  \<open>base + n_in * units + j\<close>.
\<close>

type_synonym wid = nat
type_synonym store = "wid \<Rightarrow> real"

datatype activation = Linear | Sigmoid | Tanh

datatype layer =
    Dense nat nat wid activation
  | LeakyReLU real
  | Dropout real

definition sigmoid :: "real \<Rightarrow> real" where
  "sigmoid x = 1 / (1 + exp (- x))"

fun activate :: "activation \<Rightarrow> real \<Rightarrow> real" where
  "activate Linear x = x"
| "activate Sigmoid x = sigmoid x"
| "activate Tanh x = tanh x"

definition leaky_relu :: "real \<Rightarrow> real \<Rightarrow> real" where
  "leaky_relu alpha x = (if 0 < x then x else alpha * x)"

text \<open>
  Output \<open>j\<close> of a dense layer before its activation. The input is read at the
  positions \<open>0, ..., n_in - 1\<close>: it is meant for inputs of \<open>n_in\<close> entries, the only
  ones Keras accepts (\<open>predict\<close> below makes the check).
\<close>

definition dense_unit :: "store \<Rightarrow> nat \<Rightarrow> nat \<Rightarrow> wid \<Rightarrow> vec \<Rightarrow> nat \<Rightarrow> real" where
  "dense_unit w n_in units base x j =
     sum_list (map (\<lambda>i. x ! i * w (base + i * units + j)) [0..<n_in]) +
     w (base + n_in * units + j)"

text \<open>
  One layer applied to one sample. \<open>training\<close> is the Keras learning phase; in that
  phase a dropout layer keeps the entries selected by the mask \<open>keep\<close> (drawn by the
  backend, a parameter here) scaled by \<open>1 / (1 - rate)\<close>, and is the identity otherwise.
\<close>

fun apply_layer :: "bool \<Rightarrow> (nat \<Rightarrow> bool) \<Rightarrow> store \<Rightarrow> layer \<Rightarrow> vec \<Rightarrow> vec" where
  "apply_layer training keep w (Dense n_in units base act) x =
     map (\<lambda>j. activate act (dense_unit w n_in units base x j)) [0..<units]"
| "apply_layer training keep w (LeakyReLU alpha) x = map (leaky_relu alpha) x"
| "apply_layer training keep w (Dropout rate) x =
     (if training
      then map (\<lambda>i. if keep i then x ! i / (1 - rate) else 0) [0..<length x]
      else x)"

definition forward :: "bool \<Rightarrow> (nat \<Rightarrow> bool) \<Rightarrow> store \<Rightarrow> layer list \<Rightarrow> vec \<Rightarrow> vec" where
  "forward training keep w ls x = fold (apply_layer training keep w) ls x"

text \<open>
  \<^verbatim>\<open>keras.models.Sequential()\<close> and \<^verbatim>\<open>.add(...)\<close>. A model records its layers, the
  addresses of its weights (\<open>first_wid\<close> up to \<open>next_wid\<close>, allocated in the order the
  layers are added), and its input and output widths.
\<close>

record sequential =
  layers :: "layer list"
  first_wid :: wid
  next_wid :: wid
  in_dim :: nat
  out_dim :: nat

definition Sequential :: "wid \<Rightarrow> sequential" where
  "Sequential base = \<lparr>layers = [], first_wid = base, next_wid = base, in_dim = 0, out_dim = 0\<rparr>"

definition add_Dense :: "nat \<Rightarrow> activation \<Rightarrow> sequential \<Rightarrow> sequential" where
  "add_Dense units act m =
     m\<lparr>layers := layers m @ [Dense (out_dim m) units (next_wid m) act],
       next_wid := next_wid m + out_dim m * units + units,
       out_dim := units\<rparr>"

text \<open>\<^verbatim>\<open>Dense(units, input_dim=d)\<close> as the first layer fixes the input width.\<close>

definition add_Dense_input :: "nat \<Rightarrow> nat \<Rightarrow> activation \<Rightarrow> sequential \<Rightarrow> sequential" where
  "add_Dense_input units d act m = add_Dense units act (m\<lparr>in_dim := d, out_dim := d\<rparr>)"

definition add_LeakyReLU :: "real \<Rightarrow> sequential \<Rightarrow> sequential" where
  "add_LeakyReLU alpha m = m\<lparr>layers := layers m @ [LeakyReLU alpha]\<rparr>"

definition add_Dropout :: "real \<Rightarrow> sequential \<Rightarrow> sequential" where
  "add_Dropout rate m = m\<lparr>layers := layers m @ [Dropout rate]\<rparr>"

definition weight_ids :: "sequential \<Rightarrow> wid list" where
  "weight_ids m = [first_wid m..<next_wid m]"

text \<open>
  The networks of the GAN notebook. \<^verbatim>\<open>LeakyReLU()\<close> has the Keras default slope 0.3.
  \<^verbatim>\<open>
  def get_discriminator_1D():
    discriminator = keras.models.Sequential()
    discriminator.add(Dense(32, input_dim=1))
    discriminator.add(LeakyReLU())
    discriminator.add(Dense(1, activation='sigmoid'))
    return discriminator
  \<close>
\<close>

definition get_discriminator_1D :: "wid \<Rightarrow> sequential" where
  "get_discriminator_1D base =
     add_Dense 1 Sigmoid (add_LeakyReLU 0.3 (add_Dense_input 32 1 Linear (Sequential base)))"

definition get_generator_1D :: "wid \<Rightarrow> sequential" where
  "get_generator_1D base =
     add_Dense 1 Linear (add_LeakyReLU 0.3 (add_Dense_input 32 1 Linear (Sequential base)))"

definition get_discriminator_MLP :: "wid \<Rightarrow> sequential" where
  "get_discriminator_MLP base =
     add_Dense 1 Sigmoid
      (add_LeakyReLU 0.2
        (add_Dense 256
          Linear
          (add_Dropout 0.3
            (add_LeakyReLU 0.2
              (add_Dense 512
                Linear
                (add_Dropout 0.3
                  (add_LeakyReLU 0.2
                    (add_Dense_input 1024 784 Linear (Sequential base)))))))))"

definition get_generator_MLP :: "nat \<Rightarrow> wid \<Rightarrow> sequential" where
  "get_generator_MLP latent_dim base =
     add_Dense 784 Tanh
      (add_LeakyReLU 0.2
        (add_Dense 1024
          Linear
          (add_LeakyReLU 0.2
            (add_Dense 512
              Linear
              (add_LeakyReLU 0.2
                (add_Dense_input 256 latent_dim Linear (Sequential base)))))))"

text \<open>
  \<^verbatim>\<open>model.predict(batch)\<close>: inference on every sample of the batch. Keras rejects a
  batch whose samples do not have the model's input width.
\<close>

datatype keras_error = ShapeMismatch

definition predict :: "sequential \<Rightarrow> store \<Rightarrow> mat \<Rightarrow> keras_error + mat" where
  "predict m w batch =
     (if list_all (\<lambda>x. length x = in_dim m) batch
      then Inr (map (forward False (\<lambda>_. True) w (layers m)) batch)
      else Inl ShapeMismatch)"

text \<open>
  The loss \<^verbatim>\<open>'binary_crossentropy'\<close>: the backend clips the prediction to
  \<open>[epsilon, 1 - epsilon]\<close> with \<open>epsilon = 1e-7\<close> and averages
  \<open>- (y ln p + (1 - y) ln (1 - p))\<close> over the batch. The models trained with it end in
  one unit, whose output is entry 0 of the prediction.
\<close>

definition epsilon :: real where
  "epsilon = 1 / 10 ^ 7"

definition clip :: "real \<Rightarrow> real \<Rightarrow> real \<Rightarrow> real" where
  "clip lo hi p = max lo (min hi p)"

definition bce :: "real \<Rightarrow> real \<Rightarrow> real" where
  "bce y p = - (y * ln (clip epsilon (1 - epsilon) p) +
               (1 - y) * ln (1 - clip epsilon (1 - epsilon) p))"

definition mean :: "real list \<Rightarrow> real" where
  "mean xs = sum_list xs / real (length xs)"

definition binary_crossentropy :: "vec \<Rightarrow> mat \<Rightarrow> real" where
  "binary_crossentropy Y P = mean (map (\<lambda>(y, p). bce y (p ! 0)) (zip Y P))"

section \<open>The parts of NumPy and Keras the training loops call\<close>

text \<open>
  The notebooks call into NumPy's global random generator and into the Keras optimiser.
  Neither is code of the notebooks; both are parameters of the model:
  \<^item> \<open>std_normal\<close> draws one standard normal value from a generator state and returns
    the next state; \<open>rand_nat\<close> draws one natural number;
  \<^item> \<open>seed_state\<close> is the generator state that seeding with a number gives;
  \<^item> \<open>optimizer\<close> is one Adam step: from its own state, the loss as a function of the
    weights, the addresses it may change and the current weights it proposes new weights;
  \<^item> \<open>dropout_keep\<close> is the dropout mask of a training call;
  \<^item> \<open>collect_at_call\<close> says when a model's trainable weights are read: at every
    \<open>train_on_batch\<close> (\<open>True\<close>), or once at \<open>compile\<close> (\<open>False\<close>, as Keras 2 does).
\<close>

record ('r, 'o) framework =
  std_normal :: "'r \<Rightarrow> real \<times> 'r"
  rand_nat :: "'r \<Rightarrow> nat \<times> 'r"
  seed_state :: "nat \<Rightarrow> 'r"
  optimizer :: "'o \<Rightarrow> (store \<Rightarrow> real) \<Rightarrow> wid list \<Rightarrow> store \<Rightarrow> 'o \<times> store"
  dropout_keep :: "nat \<Rightarrow> nat \<Rightarrow> bool"
  collect_at_call :: bool

text \<open>\<open>k\<close> successive draws from a generator.\<close>

fun draw_list :: "('r \<Rightarrow> 'a \<times> 'r) \<Rightarrow> nat \<Rightarrow> 'r \<Rightarrow> 'a list \<times> 'r" where
  "draw_list g 0 r = ([], r)"
| "draw_list g (Suc k) r =
     (let (v, r1) = g r; (vs, r2) = draw_list g k r1 in (v # vs, r2))"

definition rows_of :: "nat \<Rightarrow> nat \<Rightarrow> 'a list \<Rightarrow> 'a list list" where
  "rows_of n d xs = map (\<lambda>i. take d (drop (i * d) xs)) [0..<n]"

text \<open>\<^verbatim>\<open>np.random.normal(mu, sigma, size=[n, d])\<close>\<close>

definition normal :: "('r \<Rightarrow> real \<times> 'r) \<Rightarrow> real \<Rightarrow> real \<Rightarrow> nat \<Rightarrow> nat \<Rightarrow> 'r \<Rightarrow> mat \<times> 'r" where
  "normal g mu sigma n d r =
     (let (zs, r1) = draw_list g (n * d) r
      in (rows_of n d (map (\<lambda>z. mu + sigma * z) zs), r1))"

text \<open>\<^verbatim>\<open>np.random.randint(0, high, size=n)\<close>, for \<open>0 < high\<close>.\<close>

definition randint :: "('r \<Rightarrow> nat \<times> 'r) \<Rightarrow> nat \<Rightarrow> nat \<Rightarrow> 'r \<Rightarrow> nat list \<times> 'r" where
  "randint g high n r =
     (let (vs, r1) = draw_list g n r in (map (\<lambda>v. v mod high) vs, r1))"

text \<open>
  \<^verbatim>\<open>model.train_on_batch(X, Y)\<close>: the loss of the batch under the current weights is
  returned, and the optimiser's step is applied to the trainable addresses \<open>ids\<close> of
  the model and to no other.
\<close>

definition train_on_batch ::
  "('r, 'o) framework \<Rightarrow> layer list \<Rightarrow> wid list \<Rightarrow> nat \<Rightarrow> 'o \<Rightarrow> store \<Rightarrow> mat \<Rightarrow> vec \<Rightarrow>
     'o \<times> store \<times> real" where
  "train_on_batch fw ls ids call opt w X_in Y_in =
     (let loss = (\<lambda>w1. binary_crossentropy Y_in
                          (map (forward True (dropout_keep fw call) w1 ls) X_in));
          (opt1, w1) = optimizer fw opt loss ids w
      in (opt1, (\<lambda>a. if a \<in> set ids then w1 a else w a), loss w))"

section \<open>The state of the GAN notebook\<close>

text \<open>
  The two networks, \<open>discriminator\<close> built first and \<open>generator\<close> after it, so that
  their weights have different addresses.
\<close>

record networks =
  discriminator :: sequential
  generator :: sequential

definition networks_1D :: networks where
  "networks_1D =
     \<lparr>discriminator = get_discriminator_1D 0,
      generator = get_generator_1D (next_wid (get_discriminator_1D 0))\<rparr>"

definition networks_MLP :: "nat \<Rightarrow> networks" where
  "networks_MLP latent_dim =
     \<lparr>discriminator = get_discriminator_MLP 0,
      generator = get_generator_MLP latent_dim (next_wid (get_discriminator_MLP 0))\<rparr>"

text \<open>
  The global variables of the notebook that the training cells read or write, with the
  state Keras and NumPy keep behind them: the weight store, the flag
  \<open>discriminator.trainable\<close>, the trainable weights each compiled model collected,
  the optimisers' states and their \<open>iterations\<close> counters, Python's and NumPy's random
  generators. \<open>real_batch\<close> is the variable \<open>real\<close> (\<open>image_batch\<close> in the MNIST cell),
  \<open>fake\<close> is also \<open>generated_images\<close>.
\<close>

record ('r, 'o) notebook =
  weights :: store
  d_trainable :: bool
  d_collected :: "wid list"
  gan_collected :: "wid list"
  d_opt :: 'o
  gan_opt :: 'o
  d_iterations :: nat
  gan_iterations :: nat
  py_random :: 'r
  np_random :: 'r
  X_train :: mat
  noise :: mat
  real_batch :: mat
  fake :: mat
  X :: mat
  Y_dis :: vec
  Y_gen :: vec
  d_loss :: real
  g_loss :: real
  d_losses :: "real list"
  g_losses :: "real list"

text \<open>
  A fresh kernel: the initial weights \<open>w0\<close> and optimiser state \<open>o0\<close> are what Keras
  creates, the generator states \<open>py0\<close> and \<open>np0\<close> what Python and NumPy start with
  (both seed themselves from the operating system), \<open>xs\<close> the training images.
  A new Keras model is trainable.
\<close>

definition fresh :: "store \<Rightarrow> 'o \<Rightarrow> 'r \<Rightarrow> 'r \<Rightarrow> mat \<Rightarrow> ('r, 'o) notebook" where
  "fresh w0 o0 py0 np0 xs =
     \<lparr>weights = w0, d_trainable = True, d_collected = [], gan_collected = [],
      d_opt = o0, gan_opt = o0, d_iterations = 0, gan_iterations = 0,
      py_random = py0, np_random = np0, X_train = xs,
      noise = [], real_batch = [], fake = [], X = [], Y_dis = [], Y_gen = [],
      d_loss = 0, g_loss = 0, d_losses = [], g_losses = []\<rparr>"

text \<open>
  The trainable weights of the discriminator and of the composed model \<open>gan\<close>
  (generator, then discriminator): a model whose \<open>trainable\<close> flag is off has none.
\<close>

definition discriminator_trainable_weights :: "networks \<Rightarrow> ('r, 'o) notebook \<Rightarrow> wid list" where
  "discriminator_trainable_weights nets s =
     (if d_trainable s then weight_ids (discriminator nets) else [])"

definition gan_trainable_weights :: "networks \<Rightarrow> ('r, 'o) notebook \<Rightarrow> wid list" where
  "gan_trainable_weights nets s =
     weight_ids (generator nets) @ discriminator_trainable_weights nets s"

text \<open>
  The addresses a training call may change: the model's trainable weights, as they are
  at the call or as they were collected when the model was compiled.
\<close>

definition discriminator_train_ids ::
  "('r, 'o) framework \<Rightarrow> networks \<Rightarrow> ('r, 'o) notebook \<Rightarrow> wid list" where
  "discriminator_train_ids fw nets s =
     (if collect_at_call fw then discriminator_trainable_weights nets s else d_collected s)"

definition gan_train_ids ::
  "('r, 'o) framework \<Rightarrow> networks \<Rightarrow> ('r, 'o) notebook \<Rightarrow> wid list" where
  "gan_train_ids fw nets s =
     (if collect_at_call fw then gan_trainable_weights nets s else gan_collected s)"

section \<open>The statements of the training cells\<close>

datatype stmt =
    SeedRandom nat
  | CompileDiscriminator
  | CompileGan
  | SetTrainable bool
  | DrawNoise nat nat
  | DrawReal real nat nat
  | DrawImages nat
  | PredictFake
  | ConcatX
  | ZerosYDis nat
  | SetRealLabels real nat
  | TrainDiscriminator
  | AppendDLoss
  | OnesYGen nat
  | TrainGan
  | AppendGLoss
  | PlotNoise nat nat

text \<open>
  What each statement does to the notebook state:
  \<^item> \<open>SeedRandom k\<close>: \<^verbatim>\<open>random.seed(k)\<close>;
  \<^item> \<open>CompileDiscriminator\<close>, \<open>CompileGan\<close>: \<^verbatim>\<open>discriminator.compile(...)\<close>,
    \<^verbatim>\<open>gan.compile(...)\<close>;
  \<^item> \<open>SetTrainable b\<close>: \<^verbatim>\<open>discriminator.trainable = b\<close>;
  \<^item> \<open>DrawNoise n d\<close>: \<^verbatim>\<open>noise = np.random.normal(0, 1, size=[n, d])\<close>;
  \<^item> \<open>DrawReal mu n d\<close>: \<^verbatim>\<open>real = np.random.normal(mu, 1, size=[n, d])\<close>;
  \<^item> \<open>DrawImages n\<close>:
    \<^verbatim>\<open>image_batch = X_train[np.random.randint(0, X_train.shape[0], size=n)]\<close>;
  \<^item> \<open>PredictFake\<close>: \<^verbatim>\<open>fake = generator.predict(noise)\<close>;
  \<^item> \<open>ConcatX\<close>: \<^verbatim>\<open>X = np.concatenate([real, fake])\<close>;
  \<^item> \<open>ZerosYDis n\<close>: \<^verbatim>\<open>Y_dis = np.zeros(2*n)\<close>; \<open>SetRealLabels v n\<close>: \<^verbatim>\<open>Y_dis[:n] = v\<close>;
  \<^item> \<open>TrainDiscriminator\<close>: \<^verbatim>\<open>d_loss = discriminator.train_on_batch(X, Y_dis)\<close>;
  \<^item> \<open>OnesYGen n\<close>: \<^verbatim>\<open>Y_gen = np.ones(n)\<close>;
  \<^item> \<open>TrainGan\<close>: \<^verbatim>\<open>g_loss = gan.train_on_batch(noise, Y_gen)\<close>;
  \<^item> \<open>AppendDLoss\<close>, \<open>AppendGLoss\<close>: \<^verbatim>\<open>d_losses.append(d_loss)\<close>,
    \<^verbatim>\<open>g_losses.append(g_loss)\<close>;
  \<^item> \<open>PlotNoise n d\<close>: the draw \<^verbatim>\<open>np.random.normal(0, 1, size=[n, d])\<close> into a local
    variable of \<^verbatim>\<open>plotGeneratedImages\<close>.
  In the training cells every array handed to a network has the network's input width,
  so \<open>predict\<close> and \<open>train_on_batch\<close> do not fail there.
\<close>

fun exec :: "('r, 'o) framework \<Rightarrow> networks \<Rightarrow> stmt \<Rightarrow> ('r, 'o) notebook \<Rightarrow> ('r, 'o) notebook" where
  "exec fw nets (SeedRandom k) s = s\<lparr>py_random := seed_state fw k\<rparr>"
| "exec fw nets CompileDiscriminator s =
     s\<lparr>d_collected := discriminator_trainable_weights nets s\<rparr>"
| "exec fw nets CompileGan s = s\<lparr>gan_collected := gan_trainable_weights nets s\<rparr>"
| "exec fw nets (SetTrainable b) s = s\<lparr>d_trainable := b\<rparr>"
| "exec fw nets (DrawNoise n d) s =
     (let (z, r) = normal (std_normal fw) 0 1 n d (np_random s)
      in s\<lparr>noise := z, np_random := r\<rparr>)"
| "exec fw nets (DrawReal mu n d) s =
     (let (z, r) = normal (std_normal fw) mu 1 n d (np_random s)
      in s\<lparr>real_batch := z, np_random := r\<rparr>)"
| "exec fw nets (DrawImages n) s =
     (let (idx, r) = randint (rand_nat fw) (length (X_train s)) n (np_random s)
      in s\<lparr>real_batch := map (\<lambda>i. X_train s ! i) idx, np_random := r\<rparr>)"
| "exec fw nets PredictFake s =
     s\<lparr>fake := map (forward False (\<lambda>_. True) (weights s) (layers (generator nets))) (noise s)\<rparr>"
| "exec fw nets ConcatX s = s\<lparr>X := concatenate (real_batch s) (fake s)\<rparr>"
| "exec fw nets (ZerosYDis n) s = s\<lparr>Y_dis := zeros (2 * n)\<rparr>"
| "exec fw nets (SetRealLabels v n) s = s\<lparr>Y_dis := assign_prefix n v (Y_dis s)\<rparr>"
| "exec fw nets TrainDiscriminator s =
     (let (opt1, w1, l) = train_on_batch fw (layers (discriminator nets))
                            (discriminator_train_ids fw nets s)
                            (d_iterations s) (d_opt s) (weights s) (X s) (Y_dis s)
      in s\<lparr>weights := w1, d_opt := opt1, d_iterations := Suc (d_iterations s), d_loss := l\<rparr>)"
| "exec fw nets AppendDLoss s = s\<lparr>d_losses := d_losses s @ [d_loss s]\<rparr>"
| "exec fw nets (OnesYGen n) s = s\<lparr>Y_gen := ones n\<rparr>"
| "exec fw nets TrainGan s =
     (let (opt1, w1, l) = train_on_batch fw
                            (layers (generator nets) @ layers (discriminator nets))
                            (gan_train_ids fw nets s)
                            (gan_iterations s) (gan_opt s) (weights s) (noise s) (Y_gen s)
      in s\<lparr>weights := w1, gan_opt := opt1, gan_iterations := Suc (gan_iterations s),
           g_loss := l\<rparr>)"
| "exec fw nets AppendGLoss s = s\<lparr>g_losses := g_losses s @ [g_loss s]\<rparr>"
| "exec fw nets (PlotNoise n d) s =
     (let (z, r) = normal (std_normal fw) 0 1 n d (np_random s) in s\<lparr>np_random := r\<rparr>)"

definition exec_list ::
  "('r, 'o) framework \<Rightarrow> networks \<Rightarrow> stmt list \<Rightarrow> ('r, 'o) notebook \<Rightarrow> ('r, 'o) notebook" where
  "exec_list fw nets p s = fold (exec fw nets) p s"

section \<open>The cells of the GAN notebook\<close>

text \<open>
  The import cell ends with \<^verbatim>\<open>random.seed(0)\<close>. The model cell compiles the
  discriminator, switches its \<open>trainable\<close> flag off and compiles the composed model
  (it also compiles the generator on its own, which is never trained that way).
\<close>

definition import_cell :: "stmt list" where
  "import_cell = [SeedRandom 0]"

definition model_cell :: "stmt list" where
  "model_cell = [CompileDiscriminator, SetTrainable False, CompileGan]"

subsection \<open>The 1-D training cell\<close>

definition real_mean :: real where "real_mean = 8"
definition latent_dim_1D :: nat where "latent_dim_1D = 1"
definition n_samples :: nat where "n_samples = 100"
definition epochs_1D :: nat where "epochs_1D = 10000"

text \<open>
  The body of \<^verbatim>\<open>for e in range(epochs)\<close>: one trainer step, followed every 100 steps
  by the draws of the plot (the plot itself changes nothing).
\<close>

definition body_1D :: "nat \<Rightarrow> stmt list" where
  "body_1D e =
     [DrawNoise n_samples latent_dim_1D,
      DrawReal real_mean n_samples latent_dim_1D,
      PredictFake,
      ConcatX,
      ZerosYDis n_samples,
      SetRealLabels 1 n_samples,
      SetTrainable True,
      TrainDiscriminator,
      AppendDLoss,
      SetTrainable False,
      DrawNoise n_samples latent_dim_1D,
      OnesYGen n_samples,
      TrainGan,
      AppendGLoss] @
     (if e mod 100 = 0
      then [DrawNoise n_samples latent_dim_1D, PredictFake,
            DrawReal real_mean n_samples latent_dim_1D]
      else [])"

definition start_1D ::
  "('r, 'o) framework \<Rightarrow> store \<Rightarrow> 'o \<Rightarrow> 'r \<Rightarrow> 'r \<Rightarrow> ('r, 'o) notebook" where
  "start_1D fw w0 o0 py0 np0 =
     exec_list fw networks_1D (import_cell @ model_cell) (fresh w0 o0 py0 np0 [])"

definition step_1D :: "('r, 'o) framework \<Rightarrow> nat \<Rightarrow> ('r, 'o) notebook \<Rightarrow> ('r, 'o) notebook" where
  "step_1D fw e s = exec_list fw networks_1D (body_1D e) s"

definition train_1D :: "('r, 'o) framework \<Rightarrow> nat \<Rightarrow> ('r, 'o) notebook \<Rightarrow> ('r, 'o) notebook" where
  "train_1D fw epochs s = fold (step_1D fw) [0..<epochs] s"

text \<open>The state after \<open>n\<close> complete steps and the first \<open>j\<close> statements of step \<open>n\<close>.\<close>

definition at_1D ::
  "('r, 'o) framework \<Rightarrow> nat \<Rightarrow> nat \<Rightarrow> ('r, 'o) notebook \<Rightarrow> ('r, 'o) notebook" where
  "at_1D fw n j s = exec_list fw networks_1D (take j (body_1D n)) (train_1D fw n s)"

subsection \<open>The MNIST training cell (multilayer perceptrons)\<close>

definition latent_dim_MLP :: nat where "latent_dim_MLP = 10"
definition batch_size :: nat where "batch_size = 128"
definition epochs_MLP :: nat where "epochs_MLP = 200"

text \<open>\<^verbatim>\<open>batch_count = int(X_train.shape[0] / batch_size)\<close>\<close>

definition batch_count :: "('r, 'o) notebook \<Rightarrow> nat" where
  "batch_count s = length (X_train s) div batch_size"

text \<open>The body of the inner loop \<^verbatim>\<open>for _ in range(batch_count)\<close>: one trainer step.\<close>

definition inner_MLP :: "stmt list" where
  "inner_MLP =
     [DrawNoise batch_size latent_dim_MLP,
      DrawImages batch_size,
      PredictFake,
      ConcatX,
      ZerosYDis batch_size,
      SetRealLabels 0.9 batch_size,
      SetTrainable True,
      TrainDiscriminator,
      DrawNoise batch_size latent_dim_MLP,
      OnesYGen batch_size,
      SetTrainable False,
      TrainGan]"

text \<open>
  What follows the inner loop in the body of \<^verbatim>\<open>for e in range(epochs)\<close>: the losses
  of the most recent batch are stored, and every fifth epoch images are plotted (two
  draws of noise) and the models saved.
\<close>

definition tail_MLP :: "nat \<Rightarrow> stmt list" where
  "tail_MLP e =
     [AppendDLoss, AppendGLoss] @
     (if e mod 5 = 0
      then [DrawNoise 100 latent_dim_MLP, PlotNoise 100 latent_dim_MLP]
      else [])"

text \<open>
  \<open>xs\<close> is the array \<open>X_train\<close>, which the cell builds from the training images
  as an array of 50000 rows of 784 pixels.
\<close>

definition start_MLP ::
  "('r, 'o) framework \<Rightarrow> store \<Rightarrow> 'o \<Rightarrow> 'r \<Rightarrow> 'r \<Rightarrow> mat \<Rightarrow> ('r, 'o) notebook" where
  "start_MLP fw w0 o0 py0 np0 xs =
     exec_list fw (networks_MLP latent_dim_MLP) (import_cell @ model_cell)
       (fresh w0 o0 py0 np0 xs)"

definition step_MLP :: "('r, 'o) framework \<Rightarrow> ('r, 'o) notebook \<Rightarrow> ('r, 'o) notebook" where
  "step_MLP fw s = exec_list fw (networks_MLP latent_dim_MLP) inner_MLP s"

definition steps_MLP :: "('r, 'o) framework \<Rightarrow> nat \<Rightarrow> ('r, 'o) notebook \<Rightarrow> ('r, 'o) notebook" where
  "steps_MLP fw b s = (step_MLP fw ^^ b) s"

definition epoch_MLP :: "('r, 'o) framework \<Rightarrow> nat \<Rightarrow> ('r, 'o) notebook \<Rightarrow> ('r, 'o) notebook" where
  "epoch_MLP fw e s =
     exec_list fw (networks_MLP latent_dim_MLP) (tail_MLP e) (steps_MLP fw (batch_count s) s)"

definition train_MLP :: "('r, 'o) framework \<Rightarrow> nat \<Rightarrow> ('r, 'o) notebook \<Rightarrow> ('r, 'o) notebook" where
  "train_MLP fw epochs s = fold (epoch_MLP fw) [0..<epochs] s"

text \<open>
  The state after \<open>e\<close> complete epochs, \<open>b\<close> complete steps of epoch \<open>e\<close> and the first
  \<open>j\<close> statements of the next step; and the state after \<open>e\<close> complete epochs, all steps
  of epoch \<open>e\<close> and the first \<open>j\<close> statements that follow its inner loop.
\<close>

definition at_MLP ::
  "('r, 'o) framework \<Rightarrow> nat \<Rightarrow> nat \<Rightarrow> nat \<Rightarrow> ('r, 'o) notebook \<Rightarrow> ('r, 'o) notebook" where
  "at_MLP fw e b j s =
     exec_list fw (networks_MLP latent_dim_MLP) (take j inner_MLP)
       (steps_MLP fw b (train_MLP fw e s))"

definition at_tail_MLP ::
  "('r, 'o) framework \<Rightarrow> nat \<Rightarrow> nat \<Rightarrow> ('r, 'o) notebook \<Rightarrow> ('r, 'o) notebook" where
  "at_tail_MLP fw e j s =
     exec_list fw (networks_MLP latent_dim_MLP) (take j (tail_MLP e))
       (steps_MLP fw (batch_count s) (train_MLP fw e s))"

section \<open>The dataset loaders\<close>

text \<open>
  What a pickled data file holds once unpickled: the digit file is a triple of
  (images, labels) pairs, training, validation and test set, with one row of pixels
  per image; the patch file is one array of images. A file system maps a path to the
  content of the file, if there is one.
\<close>

datatype pickled =
    MnistSets "mat \<times> int list" "mat \<times> int list" "mat \<times> int list"
  | PatchSet mat

type_synonym files = "string \<Rightarrow> pickled option"

datatype load_error = FileNotFound | UnpackError

text \<open>
  The arrays a loader returns: a vector of integers, or a four-dimensional array of
  numbers (image, row, column, channel). A Python tuple of arrays is a list of them.
\<close>

datatype ndarray = Ints "int list" | Images "real list list list list"

text \<open>
  \<^verbatim>\<open>np.resize(a, shape)\<close>: the entries of \<open>a\<close> in order, repeated as often as needed
  (zeros when \<open>a\<close> is empty) and cut to the size of the new shape.
\<close>

definition resize_flat :: "nat \<Rightarrow> real list \<Rightarrow> real list" where
  "resize_flat m xs =
     (if xs = [] then replicate m 0
      else take m (concat (replicate ((m + length xs - 1) div length xs) xs)))"

definition reshape4 :: "nat \<Rightarrow> nat \<Rightarrow> nat \<Rightarrow> nat \<Rightarrow> real list \<Rightarrow> real list list list list" where
  "reshape4 n h w c xs =
     map (\<lambda>im. map (rows_of w c) (rows_of h (w * c) im)) (rows_of n (h * w * c) xs)"

definition resize_images :: "mat \<Rightarrow> nat \<Rightarrow> real list list list list" where
  "resize_images a n = reshape4 n 28 28 1 (resize_flat (n * 28 * 28 * 1) (concat a))"

text \<open>
  \<^verbatim>\<open>np.pad(images, ((0,0),(2,2),(2,2),(0,0)), 'constant', constant_values=0)\<close> on
  images of 28 rows, 28 columns and one channel.
\<close>

definition pad_image :: "real list list list \<Rightarrow> real list list list" where
  "pad_image im =
     replicate 2 (replicate 32 [0]) @
     map (\<lambda>row. replicate 2 [0] @ row @ replicate 2 [0]) im @
     replicate 2 (replicate 32 [0])"

definition pad_images :: "real list list list list \<Rightarrow> real list list list list" where
  "pad_images ims = map pad_image ims"

text \<open>
  \<^verbatim>\<open>
  def loadMNIST(path):
      f = gzip.open(path, 'rb')
      train_set, valid_set, test_set = pickle.load(f, encoding='latin1')
      f.close()
      train_set_labels = train_set[1]
      train_set_images = np.resize(train_set[0],(len(train_set_labels),28,28,1))
      ...
      return train_set_labels, train_set_images, valid_set_labels, valid_set_images,
             test_set_labels, test_set_images
  \<close>
  The loader of the GAN notebook, and the one of the classifier notebook, which pads
  every image array after resizing it.
\<close>

definition loadMNIST :: "files \<Rightarrow> string \<Rightarrow> load_error + ndarray list" where
  "loadMNIST fs path =
     (case fs path of
        None \<Rightarrow> Inl FileNotFound
      | Some (MnistSets train_set valid_set test_set) \<Rightarrow>
          Inr [Ints (snd train_set), Images (resize_images (fst train_set) (length (snd train_set))),
               Ints (snd valid_set), Images (resize_images (fst valid_set) (length (snd valid_set))),
               Ints (snd test_set), Images (resize_images (fst test_set) (length (snd test_set)))]
      | Some (PatchSet a) \<Rightarrow> Inl UnpackError)"

definition loadMNIST_classifier :: "files \<Rightarrow> string \<Rightarrow> load_error + ndarray list" where
  "loadMNIST_classifier fs path =
     (case fs path of
        None \<Rightarrow> Inl FileNotFound
      | Some (MnistSets train_set valid_set test_set) \<Rightarrow>
          Inr [Ints (snd train_set),
               Images (pad_images (resize_images (fst train_set) (length (snd train_set)))),
               Ints (snd valid_set),
               Images (pad_images (resize_images (fst valid_set) (length (snd valid_set)))),
               Ints (snd test_set),
               Images (pad_images (resize_images (fst test_set) (length (snd test_set))))]
      | Some (PatchSet a) \<Rightarrow> Inl UnpackError)"

text \<open>
  \<^verbatim>\<open>
  def loadPatchCamelyon(path):
      f = gzip.open(path, 'rb')
      train_set = pickle.load(f, encoding='latin1')
      f.close()
      return train_set
  \<close>
\<close>

definition loadPatchCamelyon :: "files \<Rightarrow> string \<Rightarrow> load_error + pickled" where
  "loadPatchCamelyon fs path =
     (case fs path of None \<Rightarrow> Inl FileNotFound | Some v \<Rightarrow> Inr v)"

text \<open>An array of \<open>n\<close> images of \<open>h\<close> rows, \<open>w\<close> columns and \<open>c\<close> channels.\<close>

definition has_shape :: "nat \<Rightarrow> nat \<Rightarrow> nat \<Rightarrow> nat \<Rightarrow> real list list list list \<Rightarrow> bool" where
  "has_shape n h w c ims =
     (length ims = n \<and>
      list_all (\<lambda>im. length im = h \<and>
        list_all (\<lambda>row. length row = w \<and> list_all (\<lambda>px. length px = c) row) im) ims)"

text \<open>
  The loader contract in the words of the specification, \<open>load(path) -> (images, labels)\<close>:
  a pair of an image array and a label vector with one label in 0 to 9 per image.
\<close>

fun spec_load_contract :: "ndarray list \<Rightarrow> bool" where
  "spec_load_contract [Images ims, Ints labels] =
     (length ims = length labels \<and> list_all (\<lambda>l. 0 \<le> l \<and> l \<le> 9) labels)"
| "spec_load_contract r = False"

text \<open>A digit file with one image per set, labelled 5, 0 and 4, and nothing else.\<close>

definition example_files :: files where
  "example_files =
     (\<lambda>p. if p = ''mnist.pkl.gz''
          then Some (MnistSets ([replicate 784 0], [5]) ([replicate 784 0], [0])
                      ([replicate 784 0], [4]))
          else None)"

section \<open>A concrete framework\<close>

text \<open>
  A small instance of the framework's parameters, for running the model on concrete
  inputs: generator states are counters, and the optimiser adds 1 to every weight.
\<close>

definition example_framework :: "(nat, unit) framework" where
  "example_framework =
     \<lparr>std_normal = (\<lambda>r. (real r, Suc r)),
      rand_nat = (\<lambda>r. (r, Suc r)),
      seed_state = (\<lambda>k. k),
      optimizer = (\<lambda>opt loss ids w. (opt, (\<lambda>a. w a + 1))),
      dropout_keep = (\<lambda>call i. True),
      collect_at_call = False\<rparr>"

section \<open>Properties of the one-hot encoding\<close>

lemma length_set_col: "length col = length M \<Longrightarrow> length (set_col M n col) = length M"
  by (simp add: set_col_def)

lemma nth_set_col:
  "length col = length M \<Longrightarrow> i < length M \<Longrightarrow> set_col M n col ! i = (M ! i)[n := col ! i]"
  by (simp add: set_col_def)

lemma length_one_hot_upto: "length (one_hot_upto k labels) = length labels"
  by (induction k) (simp_all add: one_hot_upto_def zeros2_def length_set_col labels_eq_def)

lemma nth_one_hot_upto:
  "k \<le> 10 \<Longrightarrow> i < length labels \<Longrightarrow>
   one_hot_upto k labels ! i =
     map (\<lambda>n. if n < k \<and> labels ! i = int n then 1 else 0) [0..<10]"
proof (induction k)
  case 0
  then show ?case
    by (simp add: one_hot_upto_def zeros2_def map_replicate_const)
next
  case (Suc k)
  have step: "one_hot_upto (Suc k) labels =
      set_col (one_hot_upto k labels) k (labels_eq labels (int k))"
    by (simp add: one_hot_upto_def)
  have len: "length (labels_eq labels (int k)) = length (one_hot_upto k labels)"
    by (simp add: length_one_hot_upto labels_eq_def)
  have "one_hot_upto (Suc k) labels ! i =
      (one_hot_upto k labels ! i)[k := labels_eq labels (int k) ! i]"
    using Suc.prems len by (simp add: step nth_set_col length_one_hot_upto)
  also have "\<dots> = (map (\<lambda>n. if n < k \<and> labels ! i = int n then 1 else 0) [0..<10])
      [k := (if labels ! i = int k then 1 else 0)]"
    using Suc by (simp add: labels_eq_def)
  also have "\<dots> = map (\<lambda>n. if n < Suc k \<and> labels ! i = int n then 1 else 0) [0..<10]"
    using Suc.prems(1) by (intro nth_equalityI) (auto simp: nth_list_update less_Suc_eq)
  finally show ?case .
qed

lemma one_hot_row:
  assumes "i < length labels" "0 \<le> labels ! i" "labels ! i \<le> 9"
  shows "one_hot labels ! i = (replicate 10 0)[nat (labels ! i) := 1]"
proof -
  have "one_hot labels ! i = map (\<lambda>n. if labels ! i = int n then 1 else 0) [0..<10]"
    using assms(1) by (simp add: one_hot_def nth_one_hot_upto)
  also have "\<dots> = (replicate 10 0)[nat (labels ! i) := 1]"
    using assms(2,3) by (intro nth_equalityI) (auto simp: nth_list_update)
  finally show ?thesis .
qed

lemma sum_list_unit_row:
  "j < n \<Longrightarrow> sum_list ((replicate n (0::int))[j := 1]) = 1"
proof (induction n arbitrary: j)
  case 0
  then show ?case by simp
next
  case (Suc n)
  then show ?case by (cases j) (simp_all add: sum_list_replicate)
qed

text \<open>
  C10. For labels in the range 0 to 9 the encoding has one row per label; every row has
  length 10, holds 1 at the column of its label and 0 elsewhere, and sums to 1.
\<close>

theorem one_hot_correct:
  assumes "\<forall>l \<in> set labels. 0 \<le> l \<and> l \<le> 9"
  shows "length (one_hot labels) = length labels \<and>
         (\<forall>i < length labels.
            length (one_hot labels ! i) = 10 \<and>
            (\<forall>n < 10. one_hot labels ! i ! n = (if int n = labels ! i then 1 else 0)) \<and>
            sum_list (one_hot labels ! i) = 1)"
proof (intro conjI allI impI)
  show "length (one_hot labels) = length labels"
    by (simp add: one_hot_def length_one_hot_upto)
next
  fix i assume i: "i < length labels"
  then have rng: "0 \<le> labels ! i" "labels ! i \<le> 9"
    using assms by auto
  have row: "one_hot labels ! i = (replicate 10 0)[nat (labels ! i) := 1]"
    by (rule one_hot_row [OF i rng])
  show "length (one_hot labels ! i) = 10"
    by (simp add: row)
  show "sum_list (one_hot labels ! i) = 1"
    unfolding row using rng by (intro sum_list_unit_row) simp
  fix n :: nat assume "n < 10"
  then show "one_hot labels ! i ! n = (if int n = labels ! i then 1 else 0)"
    using rng by (auto simp: row nth_list_update)
qed

theorem one_hot_correct_witness:
  "length (one_hot [5, 0, 4]) = 3 \<and>
   length (one_hot [5, 0, 4] ! 0) = 10 \<and>
   one_hot [5, 0, 4] ! 0 ! 5 = 1 \<and>
   one_hot [5, 0, 4] ! 0 ! 4 = 0 \<and>
   sum_list (one_hot [5, 0, 4] ! 0) = 1 \<and>
   one_hot [5, 0, 4] =
     [[0, 0, 0, 0, 0, 1, 0, 0, 0, 0],
      [1, 0, 0, 0, 0, 0, 0, 0, 0, 0],
      [0, 0, 0, 0, 1, 0, 0, 0, 0, 0]]"
proof -
  have h: "\<forall>l \<in> set [5, 0, 4 :: int]. 0 \<le> l \<and> l \<le> 9"
    by simp
  have v: "one_hot [5, 0, 4] =
     [[0, 0, 0, 0, 0, 1, 0, 0, 0, 0],
      [1, 0, 0, 0, 0, 0, 0, 0, 0, 0],
      [0, 0, 0, 0, 1, 0, 0, 0, 0, 0]]"
    by code_simp
  from one_hot_correct [OF h]
  have len: "length (one_hot [5, 0, 4]) = 3"
    and row: "\<forall>i < 3. length (one_hot [5, 0, 4] ! i) = 10 \<and>
            (\<forall>n < 10. one_hot [5, 0, 4] ! i ! n = (if int n = [5, 0, 4] ! i then 1 else 0)) \<and>
            sum_list (one_hot [5, 0, 4] ! i) = 1"
    by simp_all
  from row have r0: "length (one_hot [5, 0, 4] ! 0) = 10"
      "\<forall>n < 10. one_hot [5, 0, 4] ! 0 ! n = (if int n = 5 then 1 else 0)"
      "sum_list (one_hot [5, 0, 4] ! 0) = 1"
    by auto
  from r0(2) have "one_hot [5, 0, 4] ! 0 ! 5 = 1" "one_hot [5, 0, 4] ! 0 ! 4 = 0"
    by auto
  with len r0 v show ?thesis
    by blast
qed

section \<open>Properties of the latent-space interpolation\<close>

lemma round_float_zero [simp]: "round_float p emin emax 0 = Some 0"
  by (simp add: round_float_def)

lemma round_half_even_of_int [simp]: "round_half_even (of_int n) = n"
  by (simp add: round_half_even_def)

lemma float64_one: "float64 1 = Some 1"
proof -
  have "round_half_even (2 ^ 52) = 2 ^ 52"
    using round_half_even_of_int [of "2 ^ 52"] by simp
  then show ?thesis
    by (simp add: float64_def round_float_def pow2_def Let_def)
qed

lemma float32_one: "float32 1 = Some 1"
proof -
  have "round_half_even (2 ^ 23) = 2 ^ 23"
    using round_half_even_of_int [of "2 ^ 23"] by simp
  then show ?thesis
    by (simp add: float32_def round_float_def pow2_def Let_def)
qed

lemma float_zero [simp]: "float64 0 = Some 0" "float32 0 = Some 0"
  by (simp_all add: float64_def float32_def)

lemma mix_first:
  assumes "length a = length b" "\<forall>y \<in> set b. float64 y = Some y"
  shows "mix (fdiv (Some 0) (Some 10)) a b = map Some b"
proof (intro nth_equalityI)
  show "length (mix (fdiv (Some 0) (Some 10)) a b) = length (map Some b)"
    using assms(1) by (simp add: mix_def)
next
  fix i assume "i < length (mix (fdiv (Some 0) (Some 10)) a b)"
  then have i: "i < length b" "i < length a"
    using assms(1) by (simp_all add: mix_def)
  then have "float64 (b ! i) = Some (b ! i)"
    using assms(2) by simp
  then show "mix (fdiv (Some 0) (Some 10)) a b ! i = map Some b ! i"
    using i by (simp add: mix_def fdiv_def fsub_def fmul_def fadd_def float64_one)
qed

lemma length_interpolation_upto [simp]:
  "length (interpolation_upto k d a b) = 10"
  by (induction k) (simp_all add: interpolation_upto_def)

lemma interpolation_upto_rows:
  "k \<le> 10 \<Longrightarrow>
   interpolation_upto k d a b =
     map (\<lambda>ni. if ni < k then map cast32 (mix (fdiv (Some (real ni)) (Some 10)) a b)
               else replicate d (Some 0)) [0..<10]"
proof (induction k)
  case 0
  then show ?case
    by (simp add: interpolation_upto_def map_replicate_const)
next
  case (Suc k)
  have "interpolation_upto (Suc k) d a b =
      (interpolation_upto k d a b)[k := map cast32 (mix (fdiv (Some (real k)) (Some 10)) a b)]"
    by (simp add: interpolation_upto_def)
  also have "\<dots> =
      (map (\<lambda>ni. if ni < k then map cast32 (mix (fdiv (Some (real ni)) (Some 10)) a b)
               else replicate d (Some 0)) [0..<10])
        [k := map cast32 (mix (fdiv (Some (real k)) (Some 10)) a b)]"
    using Suc by simp
  also have "\<dots> =
      map (\<lambda>ni. if ni < Suc k then map cast32 (mix (fdiv (Some (real ni)) (Some 10)) a b)
               else replicate d (Some 0)) [0..<10]"
    using Suc.prems by (intro nth_equalityI) (auto simp: nth_list_update less_Suc_eq)
  finally show ?case .
qed

lemma interpolation_rows:
  "interpolation d a b =
     map (\<lambda>ni. map cast32 (mix (fdiv (Some (real ni)) (Some 10)) a b)) [0..<10]"
  by (simp add: interpolation_def interpolation_upto_rows)

lemma length_interpolation [simp]: "length (interpolation d a b) = 10"
  by (simp add: interpolation_def)

lemma interpolation_first:
  assumes "length a = length b" "\<forall>y \<in> set b. float64 y = Some y"
  shows "interpolation d a b ! 0 = map float32 b"
proof -
  have "interpolation d a b ! 0 = map cast32 (mix (fdiv (Some 0) (Some 10)) a b)"
    by (simp add: interpolation_rows)
  also have "\<dots> = map float32 b"
    by (simp add: mix_first [OF assms] cast32_def comp_def)
  finally show ?thesis .
qed

lemma floor_log2_unit:
  assumes "1 \<le> x" "x < 2"
  shows "\<lfloor>log 2 \<bar>x\<bar>\<rfloor> = 0"
proof -
  have "0 \<le> log 2 x"
    using assms(1) by simp
  moreover have "log 2 x < 1"
    using assms by (simp add: log_less_iff)
  ultimately show ?thesis
    using assms(1) by (simp add: floor_eq_iff)
qed

lemma float64_near_one: "float64 (1 + 1 / 2 ^ 30) = Some (1 + 1 / 2 ^ 30)"
proof -
  have e: "\<lfloor>log 2 \<bar>1 + 1 / 2 ^ 30 :: real\<bar>\<rfloor> = 0"
    by (rule floor_log2_unit) simp_all
  have q: "(1 + 1 / 2 ^ 30) / (1 / 2 ^ 52) = (of_int (2 ^ 52 + 2 ^ 22) :: real)"
    by simp
  have r: "round_half_even ((1 + 1 / 2 ^ 30) / (1 / 2 ^ 52)) = 2 ^ 52 + 2 ^ 22"
    unfolding q by (rule round_half_even_of_int)
  have nz: "(1 + 1 / 2 ^ 30 :: real) \<noteq> 0"
    by simp
  show ?thesis
    unfolding float64_def round_float_def Let_def e
    using nz r by (simp add: pow2_def)
qed

lemma float32_near_one: "float32 (1 + 1 / 2 ^ 30) = Some 1"
proof -
  have e: "\<lfloor>log 2 \<bar>1 + 1 / 2 ^ 30 :: real\<bar>\<rfloor> = 0"
    by (rule floor_log2_unit) simp_all
  have q: "(1 + 1 / 2 ^ 30) / (1 / 2 ^ 23) = (of_int (2 ^ 23) + 1 / 2 ^ 7 :: real)"
    by simp
  have f: "\<lfloor>of_int (2 ^ 23) + 1 / 2 ^ 7 :: real\<rfloor> = 2 ^ 23"
    by (simp add: floor_eq_iff)
  have r: "round_half_even ((1 + 1 / 2 ^ 30) / (1 / 2 ^ 23)) = 2 ^ 23"
    unfolding q round_half_even_def Let_def f by simp
  have nz: "(1 + 1 / 2 ^ 30 :: real) \<noteq> 0"
    by simp
  show ?thesis
    unfolding float32_def round_float_def Let_def e
    using nz r by (simp add: pow2_def)
qed

text \<open>
  C9, as stated, fails on the code in two of its parts. For \<open>noise_a\<close> with all entries 1
  and \<open>noise_b\<close> with all entries \<open>1 + 2 ^ -30\<close>, two different vectors of \<open>float64\<close>
  numbers, the first row stored is \<open>noise_b\<close> rounded to \<open>float32\<close>: it is not
  \<open>noise_b\<close>, and it is \<open>noise_a\<close>, which is therefore among the produced points.
\<close>

theorem interpolation_contains_noise_a:
  "replicate 10 1 \<noteq> replicate 10 (1 + 1 / 2 ^ 30 :: real) \<and>
   interpolation 10 (replicate 10 1) (replicate 10 (1 + 1 / 2 ^ 30)) ! 0 \<noteq>
     map Some (replicate 10 (1 + 1 / 2 ^ 30)) \<and>
   map Some (replicate 10 1) \<in>
     set (interpolation 10 (replicate 10 1) (replicate 10 (1 + 1 / 2 ^ 30)))"
proof -
  have h: "\<forall>y \<in> set (replicate 10 (1 + 1 / 2 ^ 30 :: real)). float64 y = Some y"
    using float64_near_one by simp
  have "interpolation 10 (replicate 10 1) (replicate 10 (1 + 1 / 2 ^ 30)) ! 0 =
      map float32 (replicate 10 (1 + 1 / 2 ^ 30))"
    by (rule interpolation_first [OF _ h]) simp
  also have "\<dots> = map Some (replicate 10 1)"
    unfolding map_replicate float32_near_one ..
  finally have first: "interpolation 10 (replicate 10 1) (replicate 10 (1 + 1 / 2 ^ 30)) ! 0 =
      map Some (replicate 10 1)" .
  have "interpolation 10 (replicate 10 1) (replicate 10 (1 + 1 / 2 ^ 30)) ! 0 \<in>
      set (interpolation 10 (replicate 10 1) (replicate 10 (1 + 1 / 2 ^ 30)))"
    by (intro nth_mem) simp
  with first show ?thesis
    by simp
qed

text \<open>
  C9, amended. For latent vectors of \<open>latent_dim\<close> finite \<open>float64\<close> entries the loop
  produces exactly ten rows of \<open>latent_dim\<close> entries; row \<open>ni\<close> is the \<open>float32\<close>
  rounding of \<open>(ni/10) noise_a + (1 - ni/10) noise_b\<close> evaluated in \<open>float64\<close>. The
  first row is \<open>noise_b\<close> rounded to \<open>float32\<close>: it is \<open>noise_b\<close> itself when the
  entries of \<open>noise_b\<close> are \<open>float32\<close> numbers, and \<open>noise_a\<close> is among the produced
  points whenever it is \<open>noise_b\<close> rounded to \<open>float32\<close>.
\<close>

theorem interpolation_points:
  assumes "length noise_a = latent_dim" "length noise_b = latent_dim"
    and "\<forall>y \<in> set noise_b. float64 y = Some y"
  shows "interpolation latent_dim noise_a noise_b =
           map (\<lambda>ni. map cast32 (mix (fdiv (Some (real ni)) (Some 10)) noise_a noise_b))
             [0..<10] \<and>
         (\<forall>ni < 10. length (interpolation latent_dim noise_a noise_b ! ni) = latent_dim) \<and>
         interpolation latent_dim noise_a noise_b ! 0 = map float32 noise_b \<and>
         ((\<forall>y \<in> set noise_b. float32 y = Some y) \<longrightarrow>
            interpolation latent_dim noise_a noise_b ! 0 = map Some noise_b) \<and>
         (map float32 noise_b = map Some noise_a \<longrightarrow>
            map Some noise_a \<in> set (interpolation latent_dim noise_a noise_b))"
proof (intro conjI allI impI)
  show "interpolation latent_dim noise_a noise_b =
           map (\<lambda>ni. map cast32 (mix (fdiv (Some (real ni)) (Some 10)) noise_a noise_b))
             [0..<10]"
    by (rule interpolation_rows)
  show first: "interpolation latent_dim noise_a noise_b ! 0 = map float32 noise_b"
    using assms by (intro interpolation_first) simp_all
  show "length (interpolation latent_dim noise_a noise_b ! ni) = latent_dim" if "ni < 10" for ni
    using that assms(1,2) by (simp add: interpolation_rows mix_def)
  show "interpolation latent_dim noise_a noise_b ! 0 = map Some noise_b"
    if "\<forall>y \<in> set noise_b. float32 y = Some y"
    using that by (simp add: first)
  show "map Some noise_a \<in> set (interpolation latent_dim noise_a noise_b)"
    if "map float32 noise_b = map Some noise_a"
  proof -
    have "interpolation latent_dim noise_a noise_b ! 0 \<in>
        set (interpolation latent_dim noise_a noise_b)"
      by (intro nth_mem) simp
    with that first show ?thesis
      by simp
  qed
qed

theorem interpolation_points_witness:
  "interpolation 2 [1, 1] [0, 1] ! 0 = [Some 0, Some 1] \<and>
   length (interpolation 2 [1, 1] [0, 1] ! 9) = 2 \<and>
   map Some [0, 0] \<in> set (interpolation 2 [0, 0] [0, 0])"
proof -
  have h: "\<forall>y \<in> set [0, 1 :: real]. float64 y = Some y"
      "\<forall>y \<in> set [0, 0 :: real]. float64 y = Some y"
    by (simp_all add: float64_one)
  have l: "length [1, 1 :: real] = 2" "length [0, 1 :: real] = 2" "length [0, 0 :: real] = 2"
    by simp_all
  note p = interpolation_points [OF l(1) l(2) h(1)]
  note q = interpolation_points [OF l(3) l(3) h(2)]
  have "interpolation 2 [1, 1] [0, 1] ! 0 = map float32 [0, 1]"
    by (rule p [THEN conjunct2, THEN conjunct2, THEN conjunct1])
  then have a: "interpolation 2 [1, 1] [0, 1] ! 0 = [Some 0, Some 1]"
    by (simp add: float32_one)
  have "\<forall>ni < 10. length (interpolation 2 [1, 1] [0, 1] ! ni) = 2"
    by (rule p [THEN conjunct2, THEN conjunct1])
  then have b: "length (interpolation 2 [1, 1] [0, 1] ! 9) = 2"
    by simp
  have "map float32 [0, 0] = map Some [0, 0] \<longrightarrow>
      map Some [0, 0] \<in> set (interpolation 2 [0, 0] [0, 0])"
    by (rule q [THEN conjunct2, THEN conjunct2, THEN conjunct2, THEN conjunct2])
  then have c: "map Some [0, 0] \<in> set (interpolation 2 [0, 0] [0, 0])"
    by simp
  from a b c show ?thesis
    by (intro conjI)
qed

section \<open>Counting the optimiser steps\<close>

lemma exec_list_Nil [simp]: "exec_list fw nets [] s = s"
  by (simp add: exec_list_def)

lemma exec_list_Cons [simp]:
  "exec_list fw nets (c # p) s = exec_list fw nets p (exec fw nets c s)"
  by (simp add: exec_list_def)

lemma exec_list_append:
  "exec_list fw nets (p @ q) s = exec_list fw nets q (exec_list fw nets p s)"
  by (simp add: exec_list_def)

lemma d_iterations_exec:
  "d_iterations (exec fw nets c s) = d_iterations s + (if c = TrainDiscriminator then 1 else 0)"
  by (cases c) (simp_all add: Let_def split: prod.splits)

lemma gan_iterations_exec:
  "gan_iterations (exec fw nets c s) = gan_iterations s + (if c = TrainGan then 1 else 0)"
  by (cases c) (simp_all add: Let_def split: prod.splits)

lemma d_iterations_exec_list:
  "d_iterations (exec_list fw nets p s) = d_iterations s + count_list p TrainDiscriminator"
  by (induction p arbitrary: s) (simp_all add: d_iterations_exec)

lemma gan_iterations_exec_list:
  "gan_iterations (exec_list fw nets p s) = gan_iterations s + count_list p TrainGan"
  by (induction p arbitrary: s) (simp_all add: gan_iterations_exec)

lemma X_train_exec [simp]: "X_train (exec fw nets c s) = X_train s"
  by (cases c) (simp_all add: Let_def split: prod.splits)

lemma X_train_exec_list [simp]: "X_train (exec_list fw nets p s) = X_train s"
  by (induction p arbitrary: s) simp_all


lemma train_1D_Suc: "train_1D fw (Suc n) s = step_1D fw n (train_1D fw n s)"
  by (simp add: train_1D_def)





lemma count_body_1D:
  "count_list (body_1D e) TrainDiscriminator = 1" "count_list (body_1D e) TrainGan = 1"
  by (simp_all add: body_1D_def)

lemma iterations_step_1D:
  "d_iterations (step_1D fw e s) = Suc (d_iterations s)"
  "gan_iterations (step_1D fw e s) = Suc (gan_iterations s)"
  by (simp_all add: step_1D_def d_iterations_exec_list gan_iterations_exec_list count_body_1D)

lemma iterations_train_1D:
  "d_iterations (train_1D fw n s) = d_iterations s + n"
  "gan_iterations (train_1D fw n s) = gan_iterations s + n"
  by (induction n) (simp_all add: train_1D_Suc iterations_step_1D, simp_all add: train_1D_def)

lemma iterations_start_1D:
  "d_iterations (start_1D fw w0 o0 py0 np0) = 0"
  "gan_iterations (start_1D fw w0 o0 py0 np0) = 0"
  by (simp_all add: start_1D_def d_iterations_exec_list gan_iterations_exec_list
      import_cell_def model_cell_def fresh_def)


subsection \<open>The MNIST cell\<close>

lemma count_inner_MLP:
  "count_list inner_MLP TrainDiscriminator = 1" "count_list inner_MLP TrainGan = 1"
  by (simp_all add: inner_MLP_def)



lemma count_take_tail_MLP:
  "count_list (take j (tail_MLP e)) TrainDiscriminator = 0"
  "count_list (take j (tail_MLP e)) TrainGan = 0"
  by (auto simp: count_list_0_iff tail_MLP_def dest!: in_set_takeD split: if_splits)

lemma iterations_step_MLP:
  "d_iterations (step_MLP fw s) = Suc (d_iterations s)"
  "gan_iterations (step_MLP fw s) = Suc (gan_iterations s)"
  by (simp_all add: step_MLP_def d_iterations_exec_list gan_iterations_exec_list count_inner_MLP)

lemma X_train_steps_MLP [simp]: "X_train (steps_MLP fw b s) = X_train s"
  by (induction b) (simp_all add: steps_MLP_def step_MLP_def)

lemma iterations_steps_MLP:
  "d_iterations (steps_MLP fw b s) = d_iterations s + b"
  "gan_iterations (steps_MLP fw b s) = gan_iterations s + b"
  by (induction b) (simp_all add: steps_MLP_def iterations_step_MLP)

lemma X_train_epoch_MLP [simp]: "X_train (epoch_MLP fw e s) = X_train s"
  by (simp add: epoch_MLP_def)

lemma train_MLP_Suc: "train_MLP fw (Suc n) s = epoch_MLP fw n (train_MLP fw n s)"
  by (simp add: train_MLP_def)

lemma X_train_train_MLP [simp]: "X_train (train_MLP fw n s) = X_train s"
  by (induction n) (simp_all add: train_MLP_Suc, simp add: train_MLP_def)

lemma batch_count_train_MLP [simp]: "batch_count (train_MLP fw n s) = batch_count s"
  by (simp add: batch_count_def)

lemma iterations_epoch_MLP:
  "d_iterations (epoch_MLP fw e s) = d_iterations s + batch_count s"
  "gan_iterations (epoch_MLP fw e s) = gan_iterations s + batch_count s"
  using count_take_tail_MLP [of "length (tail_MLP e)" e]
  by (simp_all add: epoch_MLP_def d_iterations_exec_list gan_iterations_exec_list
      iterations_steps_MLP)

lemma iterations_train_MLP:
  "d_iterations (train_MLP fw n s) = d_iterations s + n * batch_count s"
  "gan_iterations (train_MLP fw n s) = gan_iterations s + n * batch_count s"
  by (induction n) (simp_all add: train_MLP_Suc iterations_epoch_MLP, simp_all add: train_MLP_def)

lemma iterations_start_MLP:
  "d_iterations (start_MLP fw w0 o0 py0 np0 xs) = 0"
  "gan_iterations (start_MLP fw w0 o0 py0 np0 xs) = 0"
  by (simp_all add: start_MLP_def d_iterations_exec_list gan_iterations_exec_list
      import_cell_def model_cell_def fresh_def)

lemma batch_count_start_MLP [simp]:
  "batch_count (start_MLP fw w0 o0 py0 np0 xs) = length xs div batch_size"
  by (simp add: batch_count_def start_MLP_def fresh_def)



lemma at_1D_start: "at_1D fw n 0 s = train_1D fw n s"
  by (simp add: at_1D_def)

lemma at_1D_end: "at_1D fw n (length (body_1D n)) s = train_1D fw (Suc n) s"
  by (simp add: at_1D_def train_1D_Suc step_1D_def)

lemma at_MLP_start: "at_MLP fw e 0 0 s = train_MLP fw e s"
  by (simp add: at_MLP_def steps_MLP_def)

lemma at_MLP_next: "at_MLP fw e b (length inner_MLP) s = at_MLP fw e (Suc b) 0 s"
  by (simp add: at_MLP_def steps_MLP_def step_MLP_def)

lemma at_tail_MLP_start: "at_tail_MLP fw e 0 s = at_MLP fw e (batch_count s) 0 s"
  by (simp add: at_tail_MLP_def at_MLP_def)

lemma at_tail_MLP_end: "at_tail_MLP fw e (length (tail_MLP e)) s = train_MLP fw (Suc e) s"
  by (simp add: at_tail_MLP_def train_MLP_Suc epoch_MLP_def)



text \<open>
  C8. Whatever the optimiser does and whatever losses it reports, training makes one
  trainer step per iteration of the loop and then returns: \<open>epochs\<close> steps in the 1-D
  cell (10000 in the notebook), \<open>epochs\<close> times \<open>batch_count\<close> steps in the MNIST cell
  (200 times 390 for the 50000 training images). No statement of either loop reads a
  loss to decide whether to go on.
\<close>

theorem training_step_count:
  "d_iterations (train_1D fw epochs (start_1D fw w0 o0 py0 np0)) = epochs \<and>
   gan_iterations (train_1D fw epochs (start_1D fw w0 o0 py0 np0)) = epochs \<and>
   d_iterations (train_1D fw epochs_1D (start_1D fw w0 o0 py0 np0)) = 10000 \<and>
   d_iterations (train_MLP fw epochs (start_MLP fw w0 o0 py0 np0 xs)) =
     epochs * (length xs div batch_size) \<and>
   gan_iterations (train_MLP fw epochs (start_MLP fw w0 o0 py0 np0 xs)) =
     epochs * (length xs div batch_size) \<and>
   (length xs = 50000 \<longrightarrow>
      d_iterations (train_MLP fw epochs_MLP (start_MLP fw w0 o0 py0 np0 xs)) = 78000 \<and>
      gan_iterations (train_MLP fw epochs_MLP (start_MLP fw w0 o0 py0 np0 xs)) = 78000)"
  by (simp add: iterations_train_1D iterations_start_1D iterations_train_MLP
      iterations_start_MLP epochs_1D_def epochs_MLP_def batch_size_def)

theorem training_step_count_witness:
  "d_iterations (train_1D example_framework 3 (start_1D example_framework (\<lambda>a. 0) () 0 0)) = 3 \<and>
   gan_iterations (train_MLP example_framework epochs_MLP
      (start_MLP example_framework (\<lambda>a. 0) () 0 0 (replicate 50000 []))) = 78000"
  using training_step_count [of example_framework 3 "\<lambda>a. 0" "()" 0 0 "replicate 50000 []"]
  by simp

section \<open>What each statement changes\<close>

lemma length_draw_list [simp]: "length (fst (draw_list g k r)) = k"
  by (induction k arbitrary: r) (simp_all add: split_def Let_def)

lemma length_normal [simp]: "length (fst (normal g mu sigma n d r)) = n"
  by (simp add: normal_def split_def Let_def rows_of_def)

lemma length_randint [simp]: "length (fst (randint g high n r)) = n"
  by (simp add: randint_def split_def Let_def)

lemma train_on_batch_loss:
  "snd (snd (train_on_batch fw ls ids call opt w Xi Yi)) =
     binary_crossentropy Yi (map (forward True (dropout_keep fw call) w ls) Xi)"
  by (simp add: train_on_batch_def Let_def split_def)

lemma train_on_batch_frame:
  "a \<notin> set ids \<Longrightarrow> fst (snd (train_on_batch fw ls ids call opt w Xi Yi)) a = w a"
  by (simp add: train_on_batch_def Let_def split_def)

lemma d_losses_exec:
  "d_losses (exec fw nets c s) =
     (case c of AppendDLoss \<Rightarrow> d_losses s @ [d_loss s] | _ \<Rightarrow> d_losses s)"
  by (cases c) (simp_all add: Let_def split_def)

lemma g_losses_exec:
  "g_losses (exec fw nets c s) =
     (case c of AppendGLoss \<Rightarrow> g_losses s @ [g_loss s] | _ \<Rightarrow> g_losses s)"
  by (cases c) (simp_all add: Let_def split_def)

lemma d_loss_exec:
  "d_loss (exec fw nets c s) =
     (case c of
        TrainDiscriminator \<Rightarrow>
          binary_crossentropy (Y_dis s)
            (map (forward True (dropout_keep fw (d_iterations s)) (weights s)
                    (layers (discriminator nets))) (X s))
      | _ \<Rightarrow> d_loss s)"
  by (cases c) (simp_all add: Let_def split_def train_on_batch_loss)

lemma g_loss_exec:
  "g_loss (exec fw nets c s) =
     (case c of
        TrainGan \<Rightarrow>
          binary_crossentropy (Y_gen s)
            (map (forward True (dropout_keep fw (gan_iterations s)) (weights s)
                    (layers (generator nets) @ layers (discriminator nets))) (noise s))
      | _ \<Rightarrow> g_loss s)"
  by (cases c) (simp_all add: Let_def split_def train_on_batch_loss)

lemma Y_dis_exec:
  "Y_dis (exec fw nets c s) =
     (case c of
        ZerosYDis n \<Rightarrow> zeros (2 * n)
      | SetRealLabels v n \<Rightarrow> assign_prefix n v (Y_dis s)
      | _ \<Rightarrow> Y_dis s)"
  by (cases c) (simp_all add: Let_def split_def)

lemma Y_gen_exec:
  "Y_gen (exec fw nets c s) = (case c of OnesYGen n \<Rightarrow> ones n | _ \<Rightarrow> Y_gen s)"
  by (cases c) (simp_all add: Let_def split_def)

lemma X_exec:
  "X (exec fw nets c s) =
     (case c of ConcatX \<Rightarrow> concatenate (real_batch s) (fake s) | _ \<Rightarrow> X s)"
  by (cases c) (simp_all add: Let_def split_def)

lemma real_batch_exec:
  "real_batch (exec fw nets c s) =
     (case c of
        DrawReal mu n d \<Rightarrow> fst (normal (std_normal fw) mu 1 n d (np_random s))
      | DrawImages n \<Rightarrow>
          map (\<lambda>i. X_train s ! i)
            (fst (randint (rand_nat fw) (length (X_train s)) n (np_random s)))
      | _ \<Rightarrow> real_batch s)"
  by (cases c) (simp_all add: Let_def split_def)

lemma noise_exec:
  "noise (exec fw nets c s) =
     (case c of
        DrawNoise n d \<Rightarrow> fst (normal (std_normal fw) 0 1 n d (np_random s))
      | _ \<Rightarrow> noise s)"
  by (cases c) (simp_all add: Let_def split_def)

lemma fake_exec:
  "fake (exec fw nets c s) =
     (case c of
        PredictFake \<Rightarrow>
          map (forward False (\<lambda>i. True) (weights s) (layers (generator nets))) (noise s)
      | _ \<Rightarrow> fake s)"
  by (cases c) (simp_all add: Let_def split_def)

lemma d_trainable_exec:
  "d_trainable (exec fw nets c s) = (case c of SetTrainable b \<Rightarrow> b | _ \<Rightarrow> d_trainable s)"
  by (cases c) (simp_all add: Let_def split_def)

lemma gan_collected_exec:
  "gan_collected (exec fw nets c s) =
     (case c of CompileGan \<Rightarrow> gan_trainable_weights nets s | _ \<Rightarrow> gan_collected s)"
  by (cases c) (simp_all add: Let_def split_def)

lemma d_collected_exec:
  "d_collected (exec fw nets c s) =
     (case c of CompileDiscriminator \<Rightarrow> discriminator_trainable_weights nets s
      | _ \<Rightarrow> d_collected s)"
  by (cases c) (simp_all add: Let_def split_def)

lemma weights_exec:
  "weights (exec fw nets c s) =
     (case c of
        TrainDiscriminator \<Rightarrow>
          fst (snd (train_on_batch fw (layers (discriminator nets))
            (discriminator_train_ids fw nets s)
            (d_iterations s) (d_opt s) (weights s) (X s) (Y_dis s)))
      | TrainGan \<Rightarrow>
          fst (snd (train_on_batch fw (layers (generator nets) @ layers (discriminator nets))
            (gan_train_ids fw nets s)
            (gan_iterations s) (gan_opt s) (weights s) (noise s) (Y_gen s)))
      | _ \<Rightarrow> weights s)"
  by (cases c) (simp_all add: Let_def split_def)

lemmas exec_fields =
  d_losses_exec g_losses_exec d_loss_exec g_loss_exec Y_dis_exec Y_gen_exec X_exec
  real_batch_exec noise_exec fake_exec d_trainable_exec gan_collected_exec d_collected_exec

declare exec.simps [simp del]

lemma take_7_body_1D:
  "take 7 (body_1D e) =
     [DrawNoise n_samples latent_dim_1D, DrawReal real_mean n_samples latent_dim_1D,
      PredictFake, ConcatX, ZerosYDis n_samples, SetRealLabels 1 n_samples, SetTrainable True]"
  by (simp add: body_1D_def)

lemma take_7_inner_MLP:
  "take 7 inner_MLP =
     [DrawNoise batch_size latent_dim_MLP, DrawImages batch_size, PredictFake, ConcatX,
      ZerosYDis batch_size, SetRealLabels 0.9 batch_size, SetTrainable True]"
  by (simp add: inner_MLP_def)

lemma labels_value: "assign_prefix n v (zeros (2 * n)) = replicate n v @ replicate n 0"
  by (simp add: assign_prefix_def zeros_def)

section \<open>The discriminator's training batch\<close>

lemma batch_before_training_1D:
  fixes s :: "('r, 'o) notebook" and fw e
  defines "t \<equiv> exec_list fw networks_1D (take 7 (body_1D e)) s"
  shows "X t = real_batch t @ fake t"
    and "length (real_batch t) = n_samples"
    and "length (fake t) = n_samples"
    and "Y_dis t = replicate n_samples 1 @ replicate n_samples 0"
  unfolding t_def take_7_body_1D
  by (simp_all add: exec_fields concatenate_def labels_value)

lemma batch_before_training_MLP:
  fixes s :: "('r, 'o) notebook" and fw
  defines "t \<equiv> exec_list fw (networks_MLP latent_dim_MLP) (take 7 inner_MLP) s"
  shows "X t = real_batch t @ fake t"
    and "length (real_batch t) = batch_size"
    and "length (fake t) = batch_size"
    and "Y_dis t = replicate batch_size 0.9 @ replicate batch_size 0"
  unfolding t_def take_7_inner_MLP
  by (simp_all add: exec_fields concatenate_def labels_value)

text \<open>
  C4. When the discriminator is trained (statement 8 of either loop body), its batch
  \<open>X\<close> is the real batch followed by the synthetic batch, both of the batch size, and
  its labels are the constant vector with 1 (1-D cell) or 0.9 (MNIST cell) for every
  real sample and 0 for every synthetic one: values in \<open>[0, 1]\<close> that depend on nothing
  but the batch size.
\<close>

theorem discriminator_batch_labels:
  "body_1D n ! 7 = TrainDiscriminator \<and>
   X (at_1D fw n 7 s) = real_batch (at_1D fw n 7 s) @ fake (at_1D fw n 7 s) \<and>
   length (real_batch (at_1D fw n 7 s)) = n_samples \<and>
   length (fake (at_1D fw n 7 s)) = n_samples \<and>
   Y_dis (at_1D fw n 7 s) = replicate n_samples 1 @ replicate n_samples 0 \<and>
   (\<forall>y \<in> set (Y_dis (at_1D fw n 7 s)). 0 \<le> y \<and> y \<le> 1) \<and>
   inner_MLP ! 7 = TrainDiscriminator \<and>
   X (at_MLP fw e b 7 s) = real_batch (at_MLP fw e b 7 s) @ fake (at_MLP fw e b 7 s) \<and>
   length (real_batch (at_MLP fw e b 7 s)) = batch_size \<and>
   length (fake (at_MLP fw e b 7 s)) = batch_size \<and>
   Y_dis (at_MLP fw e b 7 s) = replicate batch_size 0.9 @ replicate batch_size 0 \<and>
   (\<forall>y \<in> set (Y_dis (at_MLP fw e b 7 s)). 0 \<le> y \<and> y \<le> 1)"
proof -
  have "body_1D n ! 7 = TrainDiscriminator" "inner_MLP ! 7 = TrainDiscriminator"
    by (simp_all add: body_1D_def inner_MLP_def)
  moreover note batch_before_training_1D [of fw n "train_1D fw n s", folded at_1D_def]
  moreover note batch_before_training_MLP
    [of fw "steps_MLP fw b (train_MLP fw e s)", folded at_MLP_def]
  ultimately show ?thesis
    by auto
qed

theorem discriminator_batch_labels_witness:
  "X (at_1D example_framework 0 7 (start_1D example_framework (\<lambda>a. 0) () 0 0)) =
     real_batch (at_1D example_framework 0 7 (start_1D example_framework (\<lambda>a. 0) () 0 0)) @
     fake (at_1D example_framework 0 7 (start_1D example_framework (\<lambda>a. 0) () 0 0)) \<and>
   Y_dis (at_1D example_framework 0 7 (start_1D example_framework (\<lambda>a. 0) () 0 0)) =
     replicate 100 1 @ replicate 100 0 \<and>
   Y_dis (at_MLP example_framework 0 0 7
       (start_MLP example_framework (\<lambda>a. 0) () 0 0 (replicate 50000 (replicate 784 0)))) =
     replicate 128 0.9 @ replicate 128 0"
  using discriminator_batch_labels [of 0 example_framework
      "start_1D example_framework (\<lambda>a. 0) () 0 0"]
    discriminator_batch_labels [of 0 example_framework
      "start_MLP example_framework (\<lambda>a. 0) () 0 0 (replicate 50000 (replicate 784 0))" 0 0]
  by (simp add: n_samples_def batch_size_def)

section \<open>The recorded losses\<close>

lemma epsilon_bounds: "0 < epsilon" "epsilon < 1 - epsilon" "1 - epsilon < 1"
  by (simp_all add: epsilon_def)

lemma clip_bounds: "epsilon \<le> clip epsilon (1 - epsilon) p" "clip epsilon (1 - epsilon) p \<le> 1 - epsilon"
  using epsilon_bounds by (simp_all add: clip_def)

lemma bce_nonneg:
  assumes "0 \<le> y" "y \<le> 1"
  shows "0 \<le> bce y p"
proof -
  define c where "c = clip epsilon (1 - epsilon) p"
  have c: "0 < c" "c < 1"
    using clip_bounds [of p] epsilon_bounds by (simp_all add: c_def)
  then have "ln c \<le> 0" "ln (1 - c) \<le> 0"
    by simp_all
  with assms have "y * ln c \<le> 0" "(1 - y) * ln (1 - c) \<le> 0"
    by (simp_all add: mult_nonneg_nonpos)
  then show ?thesis
    by (simp add: bce_def c_def [symmetric])
qed

lemma binary_crossentropy_nonneg:
  assumes "\<And>y. y \<in> set Y_in \<Longrightarrow> 0 \<le> y \<and> y \<le> 1"
  shows "0 \<le> binary_crossentropy Y_in P"
proof -
  have "0 \<le> sum_list (map (\<lambda>(y, p). bce y (p ! 0)) (zip Y_in P))"
  proof (rule sum_list_nonneg)
    fix v assume "v \<in> set (map (\<lambda>(y, p). bce y (p ! 0)) (zip Y_in P))"
    then obtain y p where "(y, p) \<in> set (zip Y_in P)" "v = bce y (p ! 0)"
      by auto
    with assms show "0 \<le> v"
      by (auto dest: set_zip_leftD intro: bce_nonneg)
  qed
  then show ?thesis
    by (simp add: binary_crossentropy_def mean_def)
qed

lemma losses_step_1D:
  "d_losses (step_1D fw e s) = d_losses s @ [d_loss (step_1D fw e s)]"
  "g_losses (step_1D fw e s) = g_losses s @ [g_loss (step_1D fw e s)]"
  by (simp_all add: step_1D_def body_1D_def exec_fields)

lemma loss_nonneg_step_1D:
  "0 \<le> d_loss (step_1D fw e s)" "0 \<le> g_loss (step_1D fw e s)"
  by (auto simp: step_1D_def body_1D_def exec_fields labels_value ones_def
      intro!: binary_crossentropy_nonneg)

lemma losses_step_MLP:
  "d_losses (step_MLP fw s) = d_losses s" "g_losses (step_MLP fw s) = g_losses s"
  by (simp_all add: step_MLP_def inner_MLP_def exec_fields)

lemma loss_nonneg_step_MLP:
  "0 \<le> d_loss (step_MLP fw s)" "0 \<le> g_loss (step_MLP fw s)"
  by (auto simp: step_MLP_def inner_MLP_def exec_fields labels_value ones_def
      intro!: binary_crossentropy_nonneg)

lemma losses_steps_MLP:
  "d_losses (steps_MLP fw b s) = d_losses s" "g_losses (steps_MLP fw b s) = g_losses s"
  by (induction b) (simp_all add: steps_MLP_def losses_step_MLP)

lemma loss_nonneg_steps_MLP:
  "0 < b \<Longrightarrow> 0 \<le> d_loss (steps_MLP fw b s)" "0 < b \<Longrightarrow> 0 \<le> g_loss (steps_MLP fw b s)"
  by (cases b; simp add: steps_MLP_def loss_nonneg_step_MLP)+

lemma losses_epoch_MLP:
  "d_losses (epoch_MLP fw e s) = d_losses s @ [d_loss (steps_MLP fw (batch_count s) s)]"
  "g_losses (epoch_MLP fw e s) = g_losses s @ [g_loss (steps_MLP fw (batch_count s) s)]"
  by (simp_all add: epoch_MLP_def tail_MLP_def exec_fields losses_steps_MLP)

lemma losses_start_MLP:
  "d_losses (start_MLP fw w0 o0 py0 np0 xs) = []" "g_losses (start_MLP fw w0 o0 py0 np0 xs) = []"
  by (simp_all add: start_MLP_def import_cell_def model_cell_def exec_fields fresh_def)

text \<open>
  C2, as stated, fails in the MNIST cell: its histories are extended after the inner
  loop, so a complete trainer step (both updates made) has appended nothing.
\<close>

theorem mnist_step_appends_no_loss:
  "d_iterations (step_MLP example_framework
      (start_MLP example_framework (\<lambda>a. 0) () 0 0 (replicate 50000 (replicate 784 0)))) = 1 \<and>
   gan_iterations (step_MLP example_framework
      (start_MLP example_framework (\<lambda>a. 0) () 0 0 (replicate 50000 (replicate 784 0)))) = 1 \<and>
   d_losses (step_MLP example_framework
      (start_MLP example_framework (\<lambda>a. 0) () 0 0 (replicate 50000 (replicate 784 0)))) = [] \<and>
   g_losses (step_MLP example_framework
      (start_MLP example_framework (\<lambda>a. 0) () 0 0 (replicate 50000 (replicate 784 0)))) = []"
  by (simp add: iterations_step_MLP iterations_start_MLP losses_step_MLP losses_start_MLP)

text \<open>
  C2, amended. In the 1-D cell every trainer step appends exactly one value to each
  history, the loss of its discriminator update and the loss of its generator update,
  both non-negative. In the MNIST cell a trainer step appends nothing and its two losses
  are non-negative; every epoch appends exactly one value to each history, the losses of
  the last step of the epoch.
\<close>

theorem loss_histories:
  "d_losses (step_1D fw n s) = d_losses s @ [d_loss (step_1D fw n s)] \<and>
   g_losses (step_1D fw n s) = g_losses s @ [g_loss (step_1D fw n s)] \<and>
   0 \<le> d_loss (step_1D fw n s) \<and> 0 \<le> g_loss (step_1D fw n s) \<and>
   d_losses (step_MLP fw s) = d_losses s \<and> g_losses (step_MLP fw s) = g_losses s \<and>
   0 \<le> d_loss (step_MLP fw s) \<and> 0 \<le> g_loss (step_MLP fw s) \<and>
   d_losses (epoch_MLP fw e s) = d_losses s @ [d_loss (steps_MLP fw (batch_count s) s)] \<and>
   g_losses (epoch_MLP fw e s) = g_losses s @ [g_loss (steps_MLP fw (batch_count s) s)] \<and>
   (0 < batch_count s \<longrightarrow>
      0 \<le> d_loss (steps_MLP fw (batch_count s) s) \<and>
      0 \<le> g_loss (steps_MLP fw (batch_count s) s))"
  using losses_step_1D [of fw n s] loss_nonneg_step_1D [of fw n s]
    losses_step_MLP [of fw s] loss_nonneg_step_MLP [of fw s]
    losses_epoch_MLP [of fw e s] loss_nonneg_steps_MLP [of "batch_count s" fw s]
  by simp

theorem loss_histories_witness:
  "d_losses (step_1D example_framework 0 (start_1D example_framework (\<lambda>a. 0) () 0 0)) =
     d_losses (start_1D example_framework (\<lambda>a. 0) () 0 0) @
       [d_loss (step_1D example_framework 0 (start_1D example_framework (\<lambda>a. 0) () 0 0))] \<and>
   0 \<le> d_loss (step_1D example_framework 0 (start_1D example_framework (\<lambda>a. 0) () 0 0)) \<and>
   0 \<le> g_loss (steps_MLP example_framework 390
           (start_MLP example_framework (\<lambda>a. 0) () 0 0 (replicate 50000 (replicate 784 0))))"
  using loss_histories [of example_framework 0 "start_1D example_framework (\<lambda>a. 0) () 0 0"]
    loss_histories [of example_framework 0
      "start_MLP example_framework (\<lambda>a. 0) () 0 0 (replicate 50000 (replicate 784 0))"]
  by (simp add: batch_size_def)

section \<open>The generator update leaves the discriminator alone\<close>

lemma first_wid_builders [simp]:
  "first_wid (get_discriminator_1D base) = base"
  "first_wid (get_generator_1D base) = base"
  "first_wid (get_discriminator_MLP base) = base"
  "first_wid (get_generator_MLP d base) = base"
  by (simp_all add: get_discriminator_1D_def get_generator_1D_def get_discriminator_MLP_def
      get_generator_MLP_def add_Dense_def add_Dense_input_def add_LeakyReLU_def add_Dropout_def
      Sequential_def)

lemma weight_ids_disjoint:
  "first_wid g = next_wid d \<Longrightarrow> a \<in> set (weight_ids d) \<Longrightarrow> a \<notin> set (weight_ids g)"
  by (simp add: weight_ids_def)

lemma networks_disjoint:
  "a \<in> set (weight_ids (discriminator networks_1D)) \<Longrightarrow>
     a \<notin> set (weight_ids (generator networks_1D))"
  "a \<in> set (weight_ids (discriminator (networks_MLP d))) \<Longrightarrow>
     a \<notin> set (weight_ids (generator (networks_MLP d)))"
  by (simp_all add: networks_1D_def networks_MLP_def weight_ids_disjoint)

lemma gan_collected_exec_list:
  "CompileGan \<notin> set p \<Longrightarrow> gan_collected (exec_list fw nets p s) = gan_collected s"
  by (induction p arbitrary: s) (auto simp: gan_collected_exec split: stmt.splits)

lemma CompileGan_notin_bodies:
  "CompileGan \<notin> set (body_1D e)" "CompileGan \<notin> set inner_MLP" "CompileGan \<notin> set (tail_MLP e)"
  by (simp_all add: body_1D_def inner_MLP_def tail_MLP_def)

lemma gan_collected_train_1D: "gan_collected (train_1D fw n s) = gan_collected s"
  by (induction n)
    (simp_all add: train_1D_Suc step_1D_def gan_collected_exec_list CompileGan_notin_bodies,
     simp add: train_1D_def)

lemma gan_collected_at_1D: "gan_collected (at_1D fw n j s) = gan_collected s"
proof -
  have "CompileGan \<notin> set (take j (body_1D n))"
    using CompileGan_notin_bodies(1) [of n] by (auto dest: in_set_takeD)
  then show ?thesis
    by (simp add: at_1D_def gan_collected_exec_list gan_collected_train_1D)
qed

lemma gan_collected_steps_MLP: "gan_collected (steps_MLP fw b s) = gan_collected s"
  by (induction b)
    (simp_all add: steps_MLP_def step_MLP_def gan_collected_exec_list CompileGan_notin_bodies)

lemma gan_collected_train_MLP: "gan_collected (train_MLP fw n s) = gan_collected s"
  by (induction n)
    (simp_all add: train_MLP_Suc epoch_MLP_def gan_collected_exec_list CompileGan_notin_bodies
       gan_collected_steps_MLP,
     simp add: train_MLP_def)

lemma gan_collected_at_MLP: "gan_collected (at_MLP fw e b j s) = gan_collected s"
proof -
  have "CompileGan \<notin> set (take j inner_MLP)"
    using CompileGan_notin_bodies(2) by (auto dest: in_set_takeD)
  then show ?thesis
    by (simp add: at_MLP_def gan_collected_exec_list gan_collected_steps_MLP
        gan_collected_train_MLP)
qed

lemma gan_collected_start:
  "gan_collected (start_1D fw w0 o0 py0 np0) = weight_ids (generator networks_1D)"
  "gan_collected (start_MLP fw w0 o0 py0 np0 xs) =
     weight_ids (generator (networks_MLP latent_dim_MLP))"
  by (simp_all add: start_1D_def start_MLP_def import_cell_def model_cell_def exec_fields
      gan_trainable_weights_def discriminator_trainable_weights_def)

lemma at_1D_Suc:
  "j < length (body_1D n) \<Longrightarrow>
   at_1D fw n (Suc j) s = exec fw networks_1D (body_1D n ! j) (at_1D fw n j s)"
  by (simp add: at_1D_def take_Suc_conv_app_nth exec_list_append)

lemma at_MLP_Suc:
  "j < length inner_MLP \<Longrightarrow>
   at_MLP fw e b (Suc j) s =
     exec fw (networks_MLP latent_dim_MLP) (inner_MLP ! j) (at_MLP fw e b j s)"
  by (simp add: at_MLP_def take_Suc_conv_app_nth exec_list_append)

lemma weights_TrainGan_frame:
  assumes "d_trainable s = False" "gan_collected s = weight_ids (generator nets)"
    and "a \<notin> set (weight_ids (generator nets))"
  shows "weights (exec fw nets TrainGan s) a = weights s a"
proof -
  have "gan_train_ids fw nets s = weight_ids (generator nets)"
    using assms(1,2)
    by (simp add: gan_train_ids_def gan_trainable_weights_def discriminator_trainable_weights_def)
  with assms(3) show ?thesis
    by (simp add: weights_exec train_on_batch_frame)
qed

lemma generator_substep_1D:
  assumes "gan_collected s = weight_ids (generator networks_1D)"
    and "a \<notin> set (weight_ids (generator networks_1D))"
  shows "weights (at_1D fw n 13 s) a = weights (at_1D fw n 9 s) a"
proof -
  have len: "9 < length (body_1D n)" "10 < length (body_1D n)" "11 < length (body_1D n)"
      "12 < length (body_1D n)"
    by (simp_all add: body_1D_def)
  have nth: "body_1D n ! 9 = SetTrainable False" "body_1D n ! 10 = DrawNoise n_samples latent_dim_1D"
      "body_1D n ! 11 = OnesYGen n_samples" "body_1D n ! 12 = TrainGan"
    by (simp_all add: body_1D_def)
  have s10: "at_1D fw n 10 s = exec fw networks_1D (SetTrainable False) (at_1D fw n 9 s)"
    using at_1D_Suc [OF len(1), of fw s] nth by simp
  have s11: "at_1D fw n 11 s =
      exec fw networks_1D (DrawNoise n_samples latent_dim_1D) (at_1D fw n 10 s)"
    using at_1D_Suc [OF len(2), of fw s] nth by simp
  have s12: "at_1D fw n 12 s = exec fw networks_1D (OnesYGen n_samples) (at_1D fw n 11 s)"
    using at_1D_Suc [OF len(3), of fw s] nth by simp
  have s13: "at_1D fw n 13 s = exec fw networks_1D TrainGan (at_1D fw n 12 s)"
    using at_1D_Suc [OF len(4), of fw s] nth by simp
  have flag: "d_trainable (at_1D fw n 12 s) = False"
    by (simp add: s12 s11 s10 exec_fields)
  have coll: "gan_collected (at_1D fw n 12 s) = weight_ids (generator networks_1D)"
    using assms(1) by (simp add: gan_collected_at_1D)
  have "weights (at_1D fw n 13 s) a = weights (at_1D fw n 12 s) a"
    unfolding s13 by (rule weights_TrainGan_frame [OF flag coll assms(2)])
  also have "\<dots> = weights (at_1D fw n 9 s) a"
    by (simp add: s12 s11 s10 weights_exec)
  finally show ?thesis .
qed

lemma generator_substep_MLP:
  assumes "gan_collected s = weight_ids (generator (networks_MLP latent_dim_MLP))"
    and "a \<notin> set (weight_ids (generator (networks_MLP latent_dim_MLP)))"
  shows "weights (at_MLP fw e b 12 s) a = weights (at_MLP fw e b 8 s) a"
proof -
  have len: "8 < length inner_MLP" "9 < length inner_MLP" "10 < length inner_MLP"
      "11 < length inner_MLP"
    by (simp_all add: inner_MLP_def)
  have nth: "inner_MLP ! 8 = DrawNoise batch_size latent_dim_MLP"
      "inner_MLP ! 9 = OnesYGen batch_size" "inner_MLP ! 10 = SetTrainable False"
      "inner_MLP ! 11 = TrainGan"
    by (simp_all add: inner_MLP_def)
  have s9: "at_MLP fw e b 9 s =
      exec fw (networks_MLP latent_dim_MLP) (DrawNoise batch_size latent_dim_MLP)
        (at_MLP fw e b 8 s)"
    using at_MLP_Suc [OF len(1), of fw e b s] nth by simp
  have s10: "at_MLP fw e b 10 s =
      exec fw (networks_MLP latent_dim_MLP) (OnesYGen batch_size) (at_MLP fw e b 9 s)"
    using at_MLP_Suc [OF len(2), of fw e b s] nth by simp
  have s11: "at_MLP fw e b 11 s =
      exec fw (networks_MLP latent_dim_MLP) (SetTrainable False) (at_MLP fw e b 10 s)"
    using at_MLP_Suc [OF len(3), of fw e b s] nth by simp
  have s12: "at_MLP fw e b 12 s =
      exec fw (networks_MLP latent_dim_MLP) TrainGan (at_MLP fw e b 11 s)"
    using at_MLP_Suc [OF len(4), of fw e b s] nth by simp
  have flag: "d_trainable (at_MLP fw e b 11 s) = False"
    by (simp add: s11 exec_fields)
  have coll: "gan_collected (at_MLP fw e b 11 s) =
      weight_ids (generator (networks_MLP latent_dim_MLP))"
    using assms(1) by (simp add: gan_collected_at_MLP)
  have "weights (at_MLP fw e b 12 s) a = weights (at_MLP fw e b 11 s) a"
    unfolding s12 by (rule weights_TrainGan_frame [OF flag coll assms(2)])
  also have "\<dots> = weights (at_MLP fw e b 8 s) a"
    by (simp add: s11 s10 s9 weights_exec)
  finally show ?thesis .
qed

lemma weight_ids_networks_1D:
  "weight_ids (discriminator networks_1D) = [0..<97]"
  "weight_ids (generator networks_1D) = [97..<194]"
  by (simp_all add: networks_1D_def weight_ids_def get_discriminator_1D_def get_generator_1D_def
      add_Dense_def add_Dense_input_def add_LeakyReLU_def Sequential_def)

text \<open>
  C3. The generator sub-step of the 1-D cell (statements 10 to 13 of the body: freeze,
  draw noise, all-ones targets, \<open>gan.train_on_batch\<close>) and of the MNIST cell (statements
  9 to 12 of the inner body) changes no weight outside the generator; in particular
  every weight of the discriminator is the same after it as before it, whatever the
  optimiser proposes and whether Keras reads the \<open>trainable\<close> flag at the call or at
  compile time.
\<close>

theorem generator_update_frame:
  "take 4 (drop 9 (body_1D n)) =
     [SetTrainable False, DrawNoise n_samples latent_dim_1D, OnesYGen n_samples, TrainGan] \<and>
   (\<forall>a \<in> set (weight_ids (discriminator networks_1D)).
      weights (at_1D fw n 13 (start_1D fw w0 o0 py0 np0)) a =
      weights (at_1D fw n 9 (start_1D fw w0 o0 py0 np0)) a) \<and>
   (\<forall>a. a \<notin> set (weight_ids (generator networks_1D)) \<longrightarrow>
      weights (at_1D fw n 13 (start_1D fw w0 o0 py0 np0)) a =
      weights (at_1D fw n 9 (start_1D fw w0 o0 py0 np0)) a) \<and>
   drop 8 inner_MLP =
     [DrawNoise batch_size latent_dim_MLP, OnesYGen batch_size, SetTrainable False, TrainGan] \<and>
   (\<forall>a \<in> set (weight_ids (discriminator (networks_MLP latent_dim_MLP))).
      weights (at_MLP fw e b 12 (start_MLP fw w0 o0 py0 np0 xs)) a =
      weights (at_MLP fw e b 8 (start_MLP fw w0 o0 py0 np0 xs)) a) \<and>
   (\<forall>a. a \<notin> set (weight_ids (generator (networks_MLP latent_dim_MLP))) \<longrightarrow>
      weights (at_MLP fw e b 12 (start_MLP fw w0 o0 py0 np0 xs)) a =
      weights (at_MLP fw e b 8 (start_MLP fw w0 o0 py0 np0 xs)) a)"
proof (intro conjI ballI allI impI)
  show "take 4 (drop 9 (body_1D n)) =
     [SetTrainable False, DrawNoise n_samples latent_dim_1D, OnesYGen n_samples, TrainGan]"
    by (simp add: body_1D_def)
  show "drop 8 inner_MLP =
     [DrawNoise batch_size latent_dim_MLP, OnesYGen batch_size, SetTrainable False, TrainGan]"
    by (simp add: inner_MLP_def)
next
  fix a assume "a \<notin> set (weight_ids (generator networks_1D))"
  then show "weights (at_1D fw n 13 (start_1D fw w0 o0 py0 np0)) a =
      weights (at_1D fw n 9 (start_1D fw w0 o0 py0 np0)) a"
    by (intro generator_substep_1D gan_collected_start)
next
  fix a assume "a \<in> set (weight_ids (discriminator networks_1D))"
  then have "a \<notin> set (weight_ids (generator networks_1D))"
    by (rule networks_disjoint)
  then show "weights (at_1D fw n 13 (start_1D fw w0 o0 py0 np0)) a =
      weights (at_1D fw n 9 (start_1D fw w0 o0 py0 np0)) a"
    by (intro generator_substep_1D gan_collected_start)
next
  fix a assume "a \<notin> set (weight_ids (generator (networks_MLP latent_dim_MLP)))"
  then show "weights (at_MLP fw e b 12 (start_MLP fw w0 o0 py0 np0 xs)) a =
      weights (at_MLP fw e b 8 (start_MLP fw w0 o0 py0 np0 xs)) a"
    by (intro generator_substep_MLP gan_collected_start)
next
  fix a assume "a \<in> set (weight_ids (discriminator (networks_MLP latent_dim_MLP)))"
  then have "a \<notin> set (weight_ids (generator (networks_MLP latent_dim_MLP)))"
    by (rule networks_disjoint)
  then show "weights (at_MLP fw e b 12 (start_MLP fw w0 o0 py0 np0 xs)) a =
      weights (at_MLP fw e b 8 (start_MLP fw w0 o0 py0 np0 xs)) a"
    by (intro generator_substep_MLP gan_collected_start)
qed

theorem generator_update_frame_witness:
  "weights (at_1D example_framework 0 13 (start_1D example_framework (\<lambda>a. 0) () 0 0)) 0 =
     weights (at_1D example_framework 0 9 (start_1D example_framework (\<lambda>a. 0) () 0 0)) 0 \<and>
   weights (at_1D example_framework 0 13 (start_1D example_framework (\<lambda>a. 0) () 0 0)) 96 =
     weights (at_1D example_framework 0 9 (start_1D example_framework (\<lambda>a. 0) () 0 0)) 96 \<and>
   weights (at_1D example_framework 0 13 (start_1D example_framework (\<lambda>a. 0) () 0 0)) 97 =
     weights (at_1D example_framework 0 9 (start_1D example_framework (\<lambda>a. 0) () 0 0)) 97 + 1"
proof -
  let ?s = "start_1D example_framework (\<lambda>a. 0) () 0 0"
  have mem: "(0::nat) \<in> set (weight_ids (discriminator networks_1D))"
      "(96::nat) \<in> set (weight_ids (discriminator networks_1D))"
    by (simp_all add: weight_ids_networks_1D)
  from generator_update_frame [of 0 example_framework "\<lambda>a. 0" "()" 0 0] mem
  have kept: "weights (at_1D example_framework 0 13 ?s) 0 = weights (at_1D example_framework 0 9 ?s) 0"
      "weights (at_1D example_framework 0 13 ?s) 96 = weights (at_1D example_framework 0 9 ?s) 96"
    by blast+
  have len: "9 < length (body_1D 0)" "10 < length (body_1D 0)" "11 < length (body_1D 0)"
      "12 < length (body_1D 0)"
    by (simp_all add: body_1D_def)
  have nth: "body_1D 0 ! 9 = SetTrainable False" "body_1D 0 ! 10 = DrawNoise n_samples latent_dim_1D"
      "body_1D 0 ! 11 = OnesYGen n_samples" "body_1D 0 ! 12 = TrainGan"
    by (simp_all add: body_1D_def)
  have s13: "at_1D example_framework 0 13 ?s =
      exec example_framework networks_1D TrainGan
        (exec example_framework networks_1D (OnesYGen n_samples)
          (exec example_framework networks_1D (DrawNoise n_samples latent_dim_1D)
            (exec example_framework networks_1D (SetTrainable False)
              (at_1D example_framework 0 9 ?s))))"
    using at_1D_Suc [OF len(1), of example_framework ?s]
      at_1D_Suc [OF len(2), of example_framework ?s]
      at_1D_Suc [OF len(3), of example_framework ?s]
      at_1D_Suc [OF len(4), of example_framework ?s] nth
    by simp
  have ids: "gan_train_ids example_framework networks_1D
        (exec example_framework networks_1D (OnesYGen n_samples)
          (exec example_framework networks_1D (DrawNoise n_samples latent_dim_1D)
            (exec example_framework networks_1D (SetTrainable False)
              (at_1D example_framework 0 9 ?s)))) = [97..<194]"
    by (simp add: gan_train_ids_def example_framework_def exec_fields gan_collected_at_1D
        gan_collected_start weight_ids_networks_1D)
  have changed: "weights (at_1D example_framework 0 13 ?s) 97 =
      weights (at_1D example_framework 0 9 ?s) 97 + 1"
    unfolding s13
    by (simp add: weights_exec ids train_on_batch_def Let_def split_def,
        simp add: example_framework_def)
  from kept changed show ?thesis
    by blast
qed

section \<open>The discriminator's output\<close>

lemma sigmoid_bounds: "0 < sigmoid x" "sigmoid x < 1"
proof -
  have pos: "0 < 1 + exp (- x)"
    by (simp add: add_pos_pos)
  then show "0 < sigmoid x"
    by (simp add: sigmoid_def)
  show "sigmoid x < 1"
    using pos by (simp add: sigmoid_def divide_less_eq_1_pos)
qed

lemma forward_snoc:
  "forward training keep w (ls @ [l]) x =
     apply_layer training keep w l (forward training keep w ls x)"
  by (simp add: forward_def)

lemma forward_sigmoid_unit:
  "forward training keep w (ls @ [Dense n_in 1 base Sigmoid]) x =
     [sigmoid (dense_unit w n_in 1 base (forward training keep w ls x) 0)]"
  by (simp add: forward_snoc)

lemma layers_discriminator_1D:
  "layers (get_discriminator_1D base) =
     [Dense 1 32 base Linear, LeakyReLU 0.3] @ [Dense 32 1 (base + 64) Sigmoid]"
  by (simp add: get_discriminator_1D_def add_Dense_def add_Dense_input_def add_LeakyReLU_def
      Sequential_def)

lemma layers_discriminator_MLP:
  "layers (get_discriminator_MLP base) =
     [Dense 784 1024 base Linear, LeakyReLU 0.2, Dropout 0.3,
      Dense 1024 512 (base + 803840) Linear, LeakyReLU 0.2, Dropout 0.3,
      Dense 512 256 (base + 1328640) Linear, LeakyReLU 0.2] @
     [Dense 256 1 (base + 1459968) Sigmoid]"
  by (simp add: get_discriminator_MLP_def add_Dense_def add_Dense_input_def add_LeakyReLU_def
      add_Dropout_def Sequential_def)

lemma in_dim_discriminators:
  "in_dim (get_discriminator_1D base) = 1" "in_dim (get_discriminator_MLP base) = 784"
  by (simp_all add: get_discriminator_1D_def get_discriminator_MLP_def add_Dense_def
      add_Dense_input_def add_LeakyReLU_def add_Dropout_def Sequential_def)

lemma predict_sigmoid_unit:
  assumes "layers m = ls @ [Dense n_in 1 base Sigmoid]"
    and "\<forall>x \<in> set batch. length x = in_dim m"
  shows "\<exists>P. predict m w batch = Inr P \<and> length P = length batch \<and>
           (\<forall>row \<in> set P. length row = 1 \<and> 0 \<le> row ! 0 \<and> row ! 0 \<le> 1)"
proof -
  let ?P = "map (forward False (\<lambda>i. True) w (layers m)) batch"
  have "predict m w batch = Inr ?P"
    using assms(2) by (simp add: predict_def list_all_iff)
  moreover have "length ?P = length batch"
    by simp
  moreover have "\<forall>row \<in> set ?P. length row = 1 \<and> 0 \<le> row ! 0 \<and> row ! 0 \<le> 1"
  proof
    fix row assume "row \<in> set ?P"
    then obtain x where "row = forward False (\<lambda>i. True) w (layers m) x"
      by auto
    then have "row = [sigmoid (dense_unit w n_in 1 base (forward False (\<lambda>i. True) w ls x) 0)]"
      unfolding assms(1) forward_sigmoid_unit .
    then show "length row = 1 \<and> 0 \<le> row ! 0 \<and> row ! 0 \<le> 1"
      using sigmoid_bounds [of "dense_unit w n_in 1 base (forward False (\<lambda>i. True) w ls x) 0"]
      by simp
  qed
  ultimately show ?thesis
    by blast
qed

text \<open>
  C6. On every batch of samples of the target shape (one entry for the 1-D
  discriminator, 784 for the MNIST one), real or synthetic, \<open>discriminator.predict\<close>
  (the \<open>classify\<close> of the specification) returns one value per sample, and every
  value lies in \<open>[0, 1]\<close>, whatever the weights are.
\<close>

theorem classify_unit_interval:
  "((\<forall>x \<in> set batch. length x = 1) \<longrightarrow>
     (\<exists>P. predict (get_discriminator_1D base) w batch = Inr P \<and> length P = length batch \<and>
        (\<forall>row \<in> set P. length row = 1 \<and> 0 \<le> row ! 0 \<and> row ! 0 \<le> 1))) \<and>
   ((\<forall>x \<in> set images. length x = 784) \<longrightarrow>
     (\<exists>P. predict (get_discriminator_MLP base) w images = Inr P \<and> length P = length images \<and>
        (\<forall>row \<in> set P. length row = 1 \<and> 0 \<le> row ! 0 \<and> row ! 0 \<le> 1)))"
  by (intro conjI impI predict_sigmoid_unit [OF layers_discriminator_1D]
      predict_sigmoid_unit [OF layers_discriminator_MLP]; simp add: in_dim_discriminators)

theorem classify_unit_interval_witness:
  "(\<exists>P. predict (get_discriminator_1D 0) (\<lambda>a. 0) [[3], [-20]] = Inr P \<and> length P = 2 \<and>
      0 \<le> P ! 0 ! 0 \<and> P ! 0 ! 0 \<le> 1 \<and> 0 \<le> P ! 1 ! 0 \<and> P ! 1 ! 0 \<le> 1) \<and>
   (\<exists>P. predict (get_discriminator_MLP 0) (\<lambda>a. 0) [replicate 784 0] = Inr P \<and> length P = 1 \<and>
      0 \<le> P ! 0 ! 0 \<and> P ! 0 ! 0 \<le> 1)"
proof -
  have "\<forall>x \<in> set [[3], [-20 :: real]]. length x = 1"
    by simp
  with classify_unit_interval [of "[[3], [-20]]" 0 "\<lambda>a. 0" "[replicate 784 0]"]
  obtain P where P: "predict (get_discriminator_1D 0) (\<lambda>a. 0) [[3], [-20]] = Inr P"
      "length P = length [[3], [-20 :: real]]"
      "\<forall>row \<in> set P. length row = 1 \<and> 0 \<le> row ! 0 \<and> row ! 0 \<le> 1"
    by blast
  from P(2) have "P ! 0 \<in> set P" "P ! 1 \<in> set P"
    by simp_all
  with P have first: "\<exists>P. predict (get_discriminator_1D 0) (\<lambda>a. 0) [[3], [-20]] = Inr P \<and>
      length P = 2 \<and> 0 \<le> P ! 0 ! 0 \<and> P ! 0 ! 0 \<le> 1 \<and> 0 \<le> P ! 1 ! 0 \<and> P ! 1 ! 0 \<le> 1"
    by auto
  have "\<forall>x \<in> set [replicate 784 (0::real)]. length x = 784"
    by simp
  with classify_unit_interval [of "[[3], [-20]]" 0 "\<lambda>a. 0" "[replicate 784 0]"]
  obtain Q where Q: "predict (get_discriminator_MLP 0) (\<lambda>a. 0) [replicate 784 0] = Inr Q"
      "length Q = length [replicate 784 (0::real)]"
      "\<forall>row \<in> set Q. length row = 1 \<and> 0 \<le> row ! 0 \<and> row ! 0 \<le> 1"
    by blast
  from Q(2) have "Q ! 0 \<in> set Q"
    by simp
  with Q have "\<exists>P. predict (get_discriminator_MLP 0) (\<lambda>a. 0) [replicate 784 0] = Inr P \<and>
      length P = 1 \<and> 0 \<le> P ! 0 ! 0 \<and> P ! 0 ! 0 \<le> 1"
    by auto
  with first show ?thesis
    by blast
qed

section \<open>What the loaders return\<close>

lemma length_concat_replicate: "length (concat (replicate k xs)) = k * length xs"
  by (induction k) simp_all

lemma ceil_div_mult_ge:
  fixes m l :: nat
  assumes "0 < l"
  shows "m \<le> (m + l - 1) div l * l"
proof -
  have "(m + l - 1) div l * l + (m + l - 1) mod l = m + l - 1"
    by simp
  moreover have "(m + l - 1) mod l < l"
    using assms by simp
  ultimately show ?thesis
    by linarith
qed

lemma length_resize_flat [simp]: "length (resize_flat m xs) = m"
proof (cases "xs = []")
  case True
  then show ?thesis by (simp add: resize_flat_def)
next
  case False
  then have "0 < length xs" by simp
  from ceil_div_mult_ge [OF this, of m] False show ?thesis
    by (simp add: resize_flat_def length_concat_replicate)
qed

lemma length_rows_of [simp]: "length (rows_of n d xs) = n"
  by (simp add: rows_of_def)

lemma length_row_of:
  assumes "length xs = n * d" "row \<in> set (rows_of n d xs)"
  shows "length row = d"
proof -
  from assms(2) obtain i where i: "i < n" "row = take d (drop (i * d) xs)"
    by (auto simp: rows_of_def)
  from i(1) have "Suc i * d \<le> n * d"
    by (intro mult_le_mono1) simp
  then have "d \<le> n * d - i * d"
    by simp
  with i(2) assms(1) show ?thesis
    by simp
qed

lemma has_shape_reshape4:
  assumes "length xs = n * h * w * c"
  shows "has_shape n h w c (reshape4 n h w c xs)"
proof -
  have "length px = c"
    if "im \<in> set (rows_of n (h * w * c) xs)" "row \<in> set (rows_of h (w * c) im)"
      "px \<in> set (rows_of w c row)" for im row px
  proof -
    have "length im = h * (w * c)"
      using that(1) assms by (simp add: length_row_of [of xs n "h * w * c"] mult.assoc)
    then have "length row = w * c"
      using that(2) by (rule length_row_of)
    then show ?thesis
      using that(3) by (rule length_row_of)
  qed
  then show ?thesis
    by (auto simp: has_shape_def reshape4_def list_all_iff)
qed

lemma has_shape_resize_images: "has_shape n 28 28 1 (resize_images a n)"
  unfolding resize_images_def by (rule has_shape_reshape4) simp

lemma has_shape_pad_images:
  "has_shape n 28 28 1 ims \<Longrightarrow> has_shape n 32 32 1 (pad_images ims)"
  by (auto simp: has_shape_def pad_images_def pad_image_def list_all_iff)

text \<open>
  C7, as stated, gives the loader the contract \<open>load(path) -> (images, labels)\<close>. On a
  digit file \<open>loadMNIST\<close> returns six arrays, and the first of them is the vector of
  training labels.
\<close>

theorem loadMNIST_not_images_labels_pair:
  "\<exists>r. loadMNIST example_files ''mnist.pkl.gz'' = Inr r \<and> length r = 6 \<and>
       r ! 0 = Ints [5] \<and> \<not> spec_load_contract r"
  by (simp add: loadMNIST_def example_files_def)

text \<open>
  C7, amended. On a digit file \<open>loadMNIST\<close> returns, in this order, the training
  labels, the training images, the validation labels, the validation images, the test
  labels and the test images: every label vector is the one stored in the file (so its
  entries are in 0 to 9 when the file's are; the loader checks nothing), and every image
  array has the fixed shape (number of labels, 28, 28, 1), or (number of labels, 32, 32,
  1) in the classifier notebook. \<open>loadPatchCamelyon\<close> returns the unpickled array
  alone, without labels. A missing file is an error in all three.
\<close>

theorem loaders_return:
  "(fs path = Some (MnistSets (tr_images, tr_labels) (va_images, va_labels)
        (te_images, te_labels)) \<longrightarrow>
      (\<exists>a b c. loadMNIST fs path =
           Inr [Ints tr_labels, Images a, Ints va_labels, Images b, Ints te_labels, Images c] \<and>
         has_shape (length tr_labels) 28 28 1 a \<and> has_shape (length va_labels) 28 28 1 b \<and>
         has_shape (length te_labels) 28 28 1 c) \<and>
      (\<exists>a b c. loadMNIST_classifier fs path =
           Inr [Ints tr_labels, Images a, Ints va_labels, Images b, Ints te_labels, Images c] \<and>
         has_shape (length tr_labels) 32 32 1 a \<and> has_shape (length va_labels) 32 32 1 b \<and>
         has_shape (length te_labels) 32 32 1 c)) \<and>
   (fs path = Some (PatchSet patches) \<longrightarrow> loadPatchCamelyon fs path = Inr (PatchSet patches)) \<and>
   (fs path = None \<longrightarrow>
      loadMNIST fs path = Inl FileNotFound \<and> loadMNIST_classifier fs path = Inl FileNotFound \<and>
      loadPatchCamelyon fs path = Inl FileNotFound)"
  using has_shape_resize_images has_shape_pad_images [OF has_shape_resize_images]
  by (auto simp: loadMNIST_def loadMNIST_classifier_def loadPatchCamelyon_def)

theorem loaders_return_witness:
  "(\<exists>a b c. loadMNIST example_files ''mnist.pkl.gz'' =
        Inr [Ints [5], Images a, Ints [0], Images b, Ints [4], Images c] \<and>
      has_shape 1 28 28 1 a \<and> has_shape 1 28 28 1 b \<and> has_shape 1 28 28 1 c) \<and>
   (\<exists>a b c. loadMNIST_classifier example_files ''mnist.pkl.gz'' =
        Inr [Ints [5], Images a, Ints [0], Images b, Ints [4], Images c] \<and>
      has_shape 1 32 32 1 a \<and> has_shape 1 32 32 1 b \<and> has_shape 1 32 32 1 c) \<and>
   loadPatchCamelyon (\<lambda>p. Some (PatchSet [[1, 2, 3]])) ''patches.pkl.gz'' =
     Inr (PatchSet [[1, 2, 3]]) \<and>
   loadMNIST example_files ''missing.pkl.gz'' = Inl FileNotFound"
proof -
  have f: "example_files ''mnist.pkl.gz'' =
      Some (MnistSets ([replicate 784 0], [5]) ([replicate 784 0], [0]) ([replicate 784 0], [4]))"
    by (simp add: example_files_def)
  have g: "example_files ''missing.pkl.gz'' = None"
    by (simp add: example_files_def)
  from loaders_return [of example_files "''mnist.pkl.gz''" "[replicate 784 0]" "[5]"
      "[replicate 784 0]" "[0]" "[replicate 784 0]" "[4]"] f
  have a: "\<exists>a b c. loadMNIST example_files ''mnist.pkl.gz'' =
        Inr [Ints [5], Images a, Ints [0], Images b, Ints [4], Images c] \<and>
      has_shape 1 28 28 1 a \<and> has_shape 1 28 28 1 b \<and> has_shape 1 28 28 1 c"
    and b: "\<exists>a b c. loadMNIST_classifier example_files ''mnist.pkl.gz'' =
        Inr [Ints [5], Images a, Ints [0], Images b, Ints [4], Images c] \<and>
      has_shape 1 32 32 1 a \<and> has_shape 1 32 32 1 b \<and> has_shape 1 32 32 1 c"
    by simp_all
  from loaders_return [of "\<lambda>p. Some (PatchSet [[1, 2, 3]])" "''patches.pkl.gz''" _ _ _ _ _ _
      "[[1, 2, 3]]"]
  have c: "loadPatchCamelyon (\<lambda>p. Some (PatchSet [[1, 2, 3]])) ''patches.pkl.gz'' =
     Inr (PatchSet [[1, 2, 3]])"
    by simp
  from loaders_return [of example_files "''missing.pkl.gz''"] g
  have d: "loadMNIST example_files ''missing.pkl.gz'' = Inl FileNotFound"
    by simp
  from a b c d show ?thesis
    by blast
qed

section \<open>The seed and the draws\<close>

lemma np_random_exec_seed [simp]:
  "np_random (exec fw nets (SeedRandom k) s) = np_random s"
  "np_random (exec fw nets CompileDiscriminator s) = np_random s"
  "np_random (exec fw nets CompileGan s) = np_random s"
  "np_random (exec fw nets (SetTrainable b) s) = np_random s"
  by (simp_all add: exec.simps)

lemma np_random_start_1D: "np_random (start_1D fw w0 o0 py0 np0) = np0"
  by (simp add: start_1D_def import_cell_def model_cell_def fresh_def)

lemma py_random_start_1D: "py_random (start_1D fw w0 o0 py0 np0) = seed_state fw 0"
  by (simp add: start_1D_def import_cell_def model_cell_def fresh_def exec.simps)

lemma draw_list_first: "fst (draw_list g (Suc k) r) = fst (g r) # fst (draw_list g k (snd (g r)))"
  by (simp add: split_def Let_def)

lemma normal_first:
  assumes "0 < n" "0 < d"
  shows "fst (normal g mu sigma n d r) ! 0 ! 0 = mu + sigma * fst (g r)"
proof -
  from assms obtain k where k: "n * d = Suc k"
    by (cases "n * d") auto
  have row: "fst (normal g mu sigma n d r) ! 0 =
      take d (map (\<lambda>z. mu + sigma * z) (fst (draw_list g (n * d) r)))"
    using assms(1) by (simp add: normal_def split_def Let_def rows_of_def)
  have dl: "fst (draw_list g (n * d) r) = fst (g r) # fst (draw_list g k (snd (g r)))"
    unfolding k by (rule draw_list_first)
  show ?thesis
    using assms(2) by (simp add: row dl)
qed

lemma first_noise_1D:
  "noise (at_1D fw 0 1 (start_1D fw w0 o0 py0 np0)) ! 0 ! 0 = fst (std_normal fw np0)"
proof -
  have "take 1 (body_1D 0) = [DrawNoise n_samples latent_dim_1D]"
    by (simp add: body_1D_def)
  then show ?thesis
    by (simp add: at_1D_def train_1D_def exec_fields np_random_start_1D normal_first
        n_samples_def latent_dim_1D_def)
qed

text \<open>
  C5 on the code. Two runs of the notebook: both execute \<^verbatim>\<open>random.seed(0)\<close>, which
  sets Python's generator, and both draw from NumPy's generator, which the notebook
  never seeds. Started from different NumPy states, the two runs have the same seeded
  state and draw different first noise batches.
\<close>

theorem seed_does_not_fix_draws:
  "py_random (start_1D example_framework (\<lambda>a. 0) () 5 1) =
     py_random (start_1D example_framework (\<lambda>a. 0) () 5 2) \<and>
   noise (at_1D example_framework 0 1 (start_1D example_framework (\<lambda>a. 0) () 5 1)) \<noteq>
     noise (at_1D example_framework 0 1 (start_1D example_framework (\<lambda>a. 0) () 5 2))"
proof
  show "py_random (start_1D example_framework (\<lambda>a. 0) () 5 1) =
     py_random (start_1D example_framework (\<lambda>a. 0) () 5 2)"
    by (simp add: py_random_start_1D)
  have first: "noise (at_1D example_framework 0 1 (start_1D example_framework (\<lambda>a. 0) () 5 1)) ! 0 ! 0 = 1"
    "noise (at_1D example_framework 0 1 (start_1D example_framework (\<lambda>a. 0) () 5 2)) ! 0 ! 0 = 2"
    using first_noise_1D [of example_framework "\<lambda>a. 0" "()" 5 1]
      first_noise_1D [of example_framework "\<lambda>a. 0" "()" 5 2]
    by (simp_all add: example_framework_def)
  show "noise (at_1D example_framework 0 1 (start_1D example_framework (\<lambda>a. 0) () 5 1)) \<noteq>
     noise (at_1D example_framework 0 1 (start_1D example_framework (\<lambda>a. 0) () 5 2))"
  proof
    assume "noise (at_1D example_framework 0 1 (start_1D example_framework (\<lambda>a. 0) () 5 1)) =
      noise (at_1D example_framework 0 1 (start_1D example_framework (\<lambda>a. 0) () 5 2))"
    with first have "(1::real) = 2"
      by simp
    then show False
      by simp
  qed
qed

end
